theory Spec2Isabelle
  imports Complex_Main
begin

section \<open>The relational store\<close>

text \<open>
  The server keeps its data in relational tables (\<open>shared/schema.ts\<close>) reached through
  \<open>DatabaseStorage\<close>. A table read by a unique key is a map from the key to the row, a
  table that is only appended to and filtered is a list in insertion order, and a
  \<open>serial\<close> key is a counter kept beside the table. Columns of type \<open>integer\<close> are
  mathematical integers here (the width of the column is not part of the program text),
  nullable columns are options, and the time stamps \<open>createdAt\<close>, \<open>updatedAt\<close>,
  \<open>escrowAuthorizedAt\<close> and \<open>escrowCapturedAt\<close> are left out: nothing below reads
  them.
\<close>

record Credit =
  cr_userId :: string
  cr_balance :: int

record CreditLog =
  cl_userId :: string
  cl_action :: string
  cl_amount :: int
  cl_description :: string

text \<open>
  A row of \<open>bookings\<close>. The columns \<open>status\<close>, \<open>paymentMethod\<close>, \<open>paymentStructure\<close>,
  \<open>boost\<close>, \<open>boostFee\<close> and \<open>escrowStatus\<close> carry a default and are never written
  with \<open>null\<close> by the program, so they are plain values.
\<close>

record Booking =
  bk_id :: int
  bk_postId :: "int option"
  bk_workerSlug :: "string option"
  bk_buyerUid :: string
  bk_tier :: string
  bk_basePay :: int
  bk_platformFee :: int
  bk_boost :: string
  bk_boostFee :: int
  bk_totalAmount :: int
  bk_status :: string
  bk_paymentMethod :: string
  bk_stripeSessionId :: "string option"
  bk_stripePaymentIntentId :: "string option"
  bk_paymentStructure :: string
  bk_depositAmount :: "int option"
  bk_finalAmount :: "int option"
  bk_depositStatus :: "string option"
  bk_finalStatus :: "string option"
  bk_depositStripeSessionId :: "string option"
  bk_finalStripeSessionId :: "string option"
  bk_escrowStatus :: string

text \<open>
  A row of \<open>posts\<close>, with the columns the creation handler reads or sets; the other
  columns (venue, address, date, media and so on) are copied from the input as they are.
  The columns \<open>postType\<close>, \<open>boostLevel\<close> and \<open>nsfw\<close> carry a default, which
  the insert uses when the input leaves them out.
\<close>

record Post =
  po_id :: int
  po_userId :: string
  po_postType :: string
  po_title :: string
  po_category :: string
  po_tier :: string
  po_pay :: int
  po_promoterName :: string
  po_boostLevel :: string
  po_boostExpiresAt :: "nat option"
  po_nsfw :: bool

record Profile =
  pf_userId :: string
  pf_plan :: "string option"

record VerificationRequest =
  vr_userId :: string
  vr_status :: string
  vr_ageConfirmed :: bool

record ProfessionalVerification =
  pv_userId :: string
  pv_category :: string
  pv_status :: string

record db =
  credits :: "string \<rightharpoonup> int"
  creditLogs :: "CreditLog list"
  bookings :: "int \<rightharpoonup> Booking"
  bookingSeq :: int
  posts :: "Post list"
  postSeq :: int
  profiles :: "string \<rightharpoonup> Profile"
  verificationRequests :: "VerificationRequest list"
  professionalVerifications :: "ProfessionalVerification list"

definition emptyDb :: db where
  "emptyDb =
     \<lparr>credits = Map.empty, creditLogs = [], bookings = Map.empty, bookingSeq = 1,
      posts = [], postSeq = 1, profiles = Map.empty, verificationRequests = [],
      professionalVerifications = []\<rparr>"

section \<open>Pricing tables and pure cost functions\<close>

text \<open>
  \<open>shared/schema.ts\<close>: the money fee per tier and per boost (\<open>TIER_FEES\<close>,
  \<open>BOOST_FEES\<close>) and the credit costs (\<open>CREDIT_COSTS\<close>). The fees are JavaScript
  numbers with fractional entries (0.25, 0.5, 2.5); they are rationals here. Every entry
  is a multiple of 1/4, so sums with an integer and their hundredfold are exact in double
  precision as long as they stay below \<open>2^53\<close>, and the rational arithmetic agrees with
  the program's. A lookup of a name that is not a key of the table gives \<open>undefined\<close>,
  here \<open>None\<close>; the names that every JavaScript object inherits (such as
  \<open>constructor\<close>) are not modelled.
\<close>

definition TIER_FEES :: "string \<rightharpoonup> rat" where
  "TIER_FEES =
     [''Slots'' \<mapsto> 1 / 4, ''Missions'' \<mapsto> 1 / 2, ''Tasks'' \<mapsto> 1, ''Projects'' \<mapsto> 2,
      ''Chances'' \<mapsto> 5 / 2]"

record boost_fee =
  fee :: rat
  hours :: nat

definition BOOST_FEES :: "string \<rightharpoonup> boost_fee" where
  "BOOST_FEES =
     [''None'' \<mapsto> \<lparr>fee = 0, hours = 0\<rparr>,
      ''24h Boost'' \<mapsto> \<lparr>fee = 3, hours = 24\<rparr>,
      ''72h Boost'' \<mapsto> \<lparr>fee = 7, hours = 72\<rparr>,
      ''7 Day Featured'' \<mapsto> \<lparr>fee = 15, hours = 168\<rparr>]"

definition CREDIT_COSTS_post :: "string \<rightharpoonup> int" where
  "CREDIT_COSTS_post =
     [''Slots'' \<mapsto> 1, ''Missions'' \<mapsto> 2, ''Tasks'' \<mapsto> 3, ''Projects'' \<mapsto> 4, ''Chances'' \<mapsto> 5]"

definition CREDIT_COSTS_boost :: "string \<rightharpoonup> int" where
  "CREDIT_COSTS_boost =
     [''None'' \<mapsto> 0, ''24h Boost'' \<mapsto> 2, ''72h Boost'' \<mapsto> 4, ''7 Day Featured'' \<mapsto> 8]"

definition CREDIT_COSTS_event :: int where "CREDIT_COSTS_event = 1"
definition CREDIT_COSTS_eventNsfw :: int where "CREDIT_COSTS_eventNsfw = 3"
definition CREDIT_COSTS_apply :: int where "CREDIT_COSTS_apply = 1"

definition INITIAL_CREDITS :: int where "INITIAL_CREDITS = 3"

definition ADMIN_EMAILS :: "string list" where
  "ADMIN_EMAILS = [''cubansreupspots@gmail.com'']"

text \<open>\<open>shared/pricing.ts\<close>. \<open>x || 0\<close> replaces \<open>undefined\<close> (and 0) by 0.\<close>

record pricing =
  p_basePay :: rat
  p_tierFee :: rat
  p_boostFee :: rat
  p_totalAmount :: rat

definition calculateTotal :: "rat \<Rightarrow> string \<Rightarrow> string \<Rightarrow> pricing" where
  "calculateTotal basePay tier boost =
     (let tierFee = (case TIER_FEES tier of None \<Rightarrow> 0 | Some f \<Rightarrow> f);
          boostFee = (case BOOST_FEES boost of None \<Rightarrow> 0 | Some b \<Rightarrow> fee b);
          totalAmount = basePay + tierFee + boostFee
      in \<lparr>p_basePay = basePay, p_tierFee = tierFee, p_boostFee = boostFee,
          p_totalAmount = totalAmount\<rparr>)"

text \<open>
  \<open>getBoostExpiry\<close>: \<open>null\<close> for a boost without duration, otherwise the current time
  moved on by the boost's hours. Time is counted in hours.
\<close>

definition getBoostExpiry :: "string \<Rightarrow> nat \<Rightarrow> nat option" where
  "getBoostExpiry boost now =
     (let h = (case BOOST_FEES boost of None \<Rightarrow> 0 | Some b \<Rightarrow> hours b)
      in if h = 0 then None else Some (now + h))"

text \<open>\<open>shared/credits.ts\<close>. \<open>x || 1\<close> replaces \<open>undefined\<close> and 0 by 1.\<close>

definition getPostCreditCost :: "string \<Rightarrow> int" where
  "getPostCreditCost tier =
     (case CREDIT_COSTS_post tier of None \<Rightarrow> 1 | Some c \<Rightarrow> if c = 0 then 1 else c)"

definition getEventCreditCost :: "bool \<Rightarrow> int" where
  "getEventCreditCost isNsfw = (if isNsfw then CREDIT_COSTS_eventNsfw else CREDIT_COSTS_event)"

definition getBoostCreditCost :: "string \<Rightarrow> int" where
  "getBoostCreditCost boost = (case CREDIT_COSTS_boost boost of None \<Rightarrow> 0 | Some c \<Rightarrow> c)"

definition getApplyCreditCost :: int where
  "getApplyCreditCost = CREDIT_COSTS_apply"

definition canAfford :: "int \<Rightarrow> int \<Rightarrow> string \<Rightarrow> bool" where
  "canAfford bal cost plan = (if plan = ''elite'' then True else bal \<ge> cost)"

text \<open>
  The plan table of \<open>shared/subscriptions\<close>: \<open>getPlanDetails\<close> falls back to the free
  plan for an unknown name.
\<close>

record plan_details =
  boostsEnabled :: bool
  unlimitedPosts :: bool

definition PLAN_DETAILS :: "string \<rightharpoonup> plan_details" where
  "PLAN_DETAILS =
     [''free'' \<mapsto> \<lparr>boostsEnabled = False, unlimitedPosts = False\<rparr>,
      ''pro'' \<mapsto> \<lparr>boostsEnabled = True, unlimitedPosts = False\<rparr>,
      ''elite'' \<mapsto> \<lparr>boostsEnabled = True, unlimitedPosts = True\<rparr>]"

definition getPlanDetails :: "string \<Rightarrow> plan_details" where
  "getPlanDetails plan =
     (case PLAN_DETAILS plan of
        None \<Rightarrow> \<lparr>boostsEnabled = False, unlimitedPosts = False\<rparr>
      | Some d \<Rightarrow> d)"

definition canUseBoosts :: "string \<Rightarrow> bool" where
  "canUseBoosts plan = boostsEnabled (getPlanDetails plan)"

definition hasUnlimitedPosts :: "string \<Rightarrow> bool" where
  "hasUnlimitedPosts plan = unlimitedPosts (getPlanDetails plan)"

section \<open>The credit ledger (DatabaseStorage)\<close>

text \<open>\<open>getCredits\<close>: the row of the user in \<open>credits\<close>, or \<open>undefined\<close>.\<close>

definition getCredits :: "string \<Rightarrow> db \<Rightarrow> Credit option" where
  "getCredits uid s =
     (case credits s uid of
        None \<Rightarrow> None
      | Some b \<Rightarrow> Some \<lparr>cr_userId = uid, cr_balance = b\<rparr>)"

text \<open>
  The two statements the ledger operations issue: \<open>update credits set balance = v where
  user_id = uid returning *\<close>, which touches nothing when there is no row, and the insert
  into \<open>credit_logs\<close>.
\<close>

definition updateBalance :: "string \<Rightarrow> int \<Rightarrow> db \<Rightarrow> Credit option \<times> db" where
  "updateBalance uid v s =
     (case credits s uid of
        None \<Rightarrow> (None, s)
      | Some _ \<Rightarrow>
          (Some \<lparr>cr_userId = uid, cr_balance = v\<rparr>, s\<lparr>credits := (credits s)(uid \<mapsto> v)\<rparr>))"

definition insertCreditLog :: "CreditLog \<Rightarrow> db \<Rightarrow> db" where
  "insertCreditLog e s = s\<lparr>creditLogs := creditLogs s @ [e]\<rparr>"

text \<open>
  \<open>initCredits\<close>: an existing row is returned as it is; otherwise the row is inserted
  and one log entry with action \<open>init\<close> is written.
\<close>

definition initCredits :: "string \<Rightarrow> int \<Rightarrow> db \<Rightarrow> Credit \<times> db" where
  "initCredits uid bal s =
     (case getCredits uid s of
        Some existing \<Rightarrow> (existing, s)
      | None \<Rightarrow>
          (let s1 = s\<lparr>credits := (credits s)(uid \<mapsto> bal)\<rparr>;
               s2 = insertCreditLog
                      \<lparr>cl_userId = uid, cl_action = ''init'', cl_amount = bal,
                        cl_description = ''Initial credit allocation''\<rparr> s1
           in (\<lparr>cr_userId = uid, cr_balance = bal\<rparr>, s2)))"

text \<open>
  \<open>deductCredits\<close>: \<open>undefined\<close> (here \<open>None\<close>) when there is no row or the balance
  is below the amount; otherwise the balance read before, reduced by the amount, is
  written back and a log entry with the negated amount is inserted.
\<close>

definition deductCredits ::
  "string \<Rightarrow> int \<Rightarrow> string \<Rightarrow> string \<Rightarrow> db \<Rightarrow> Credit option \<times> db" where
  "deductCredits uid amt act descr s =
     (case getCredits uid s of
        None \<Rightarrow> (None, s)
      | Some current \<Rightarrow>
          if cr_balance current < amt then (None, s)
          else
            (let (updated, s1) = updateBalance uid (cr_balance current - amt) s;
                 s2 = insertCreditLog
                        \<lparr>cl_userId = uid, cl_action = act, cl_amount = - amt,
                          cl_description = descr\<rparr> s1
             in (updated, s2)))"





text \<open>The log entries of one user, and the sum of their amounts.\<close>

definition logsOf :: "string \<Rightarrow> db \<Rightarrow> CreditLog list" where
  "logsOf uid s = filter (\<lambda>e. cl_userId e = uid) (creditLogs s)"

definition logSum :: "string \<Rightarrow> db \<Rightarrow> int" where
  "logSum uid s = sum_list (map cl_amount (logsOf uid s))"



subsection \<open>The log sums to the balance\<close>









subsection \<open>When a debit fails\<close>

text \<open>
  Claim C3. \<open>deductCredits\<close> returns the failure value exactly when the user has no row
  or the balance is below the amount; a failed call leaves the store as it was; a
  successful call returns the row with the balance reduced by the amount, stores that
  balance and appends one log entry carrying the negated amount.
\<close>

theorem deductCredits_fails_iff:
  "((fst (deductCredits uid amt act descr s) = None) =
      (getCredits uid s = None \<or> (\<exists>c. getCredits uid s = Some c \<and> cr_balance c < amt)))
   \<and> (fst (deductCredits uid amt act descr s) = None \<longrightarrow>
        snd (deductCredits uid amt act descr s) = s)
   \<and> (\<forall>c. getCredits uid s = Some c \<and> \<not> cr_balance c < amt \<longrightarrow>
        fst (deductCredits uid amt act descr s) =
          Some \<lparr>cr_userId = uid, cr_balance = cr_balance c - amt\<rparr>
        \<and> credits (snd (deductCredits uid amt act descr s)) =
            (credits s)(uid \<mapsto> cr_balance c - amt)
        \<and> creditLogs (snd (deductCredits uid amt act descr s)) =
            creditLogs s @
              [\<lparr>cl_userId = uid, cl_action = act, cl_amount = - amt,
                cl_description = descr\<rparr>])"
  by (auto simp: deductCredits_def getCredits_def updateBalance_def insertCreditLog_def Let_def
      split: option.splits)

text \<open>A debit of 10 against a balance of 5 fails and leaves the balance at 5; a debit of 3 succeeds.\<close>

theorem deductCredits_fails_iff_witness:
  "fst (deductCredits ''u'' 10 ''booking'' ''d'' (emptyDb\<lparr>credits := [''u'' \<mapsto> 5]\<rparr>)) = None
   \<and> snd (deductCredits ''u'' 10 ''booking'' ''d'' (emptyDb\<lparr>credits := [''u'' \<mapsto> 5]\<rparr>)) =
        emptyDb\<lparr>credits := [''u'' \<mapsto> 5]\<rparr>
   \<and> credits (snd (deductCredits ''u'' 10 ''booking'' ''d''
        (emptyDb\<lparr>credits := [''u'' \<mapsto> 5]\<rparr>))) ''u'' = Some 5
   \<and> fst (deductCredits ''u'' 3 ''booking'' ''d'' (emptyDb\<lparr>credits := [''u'' \<mapsto> 5]\<rparr>)) =
        Some \<lparr>cr_userId = ''u'', cr_balance = 2\<rparr>
   \<and> map cl_amount (creditLogs (snd (deductCredits ''u'' 3 ''booking'' ''d''
        (emptyDb\<lparr>credits := [''u'' \<mapsto> 5]\<rparr>)))) = [- 3]"
  using deductCredits_fails_iff [of "''u''" 10 "''booking''" "''d''" "emptyDb\<lparr>credits := [''u'' \<mapsto> 5]\<rparr>"]
    deductCredits_fails_iff [of "''u''" 3 "''booking''" "''d''" "emptyDb\<lparr>credits := [''u'' \<mapsto> 5]\<rparr>"]
  by (simp add: getCredits_def emptyDb_def insertCreditLog_def updateBalance_def)

subsection \<open>Debits that interleave\<close>

text \<open>
  \<open>deductCredits\<close> is an \<open>async\<close> function with three awaited statements: the select
  of \<open>getCredits\<close>, the update and the insert into the log. Each statement is executed
  by the database on its own, and between two of them the statements of another request
  can run. A call in progress is therefore at one of four places: before the select,
  before the update (holding the row it has read, the check passed), before the insert
  (holding the updated row), or returned.
\<close>

datatype deduct_pc =
    AtSelect
  | AtUpdate Credit
  | AtInsert "Credit option"
  | Returned "Credit option"

record deduct_call =
  dc_userId :: string
  dc_amount :: int
  dc_action :: string
  dc_description :: string
  dc_pc :: deduct_pc

definition deduct_call :: "string \<Rightarrow> int \<Rightarrow> string \<Rightarrow> string \<Rightarrow> deduct_call" where
  "deduct_call uid amt act descr =
     \<lparr>dc_userId = uid, dc_amount = amt, dc_action = act, dc_description = descr,
      dc_pc = AtSelect\<rparr>"

text \<open>One awaited statement of a call, with the synchronous code that follows it.\<close>

definition deduct_advance :: "deduct_call \<Rightarrow> db \<Rightarrow> deduct_call \<times> db" where
  "deduct_advance c s =
     (case dc_pc c of
        AtSelect \<Rightarrow>
          (case getCredits (dc_userId c) s of
             None \<Rightarrow> (c\<lparr>dc_pc := Returned None\<rparr>, s)
           | Some current \<Rightarrow>
               if cr_balance current < dc_amount c then (c\<lparr>dc_pc := Returned None\<rparr>, s)
               else (c\<lparr>dc_pc := AtUpdate current\<rparr>, s))
      | AtUpdate current \<Rightarrow>
          (let (updated, s1) = updateBalance (dc_userId c) (cr_balance current - dc_amount c) s
           in (c\<lparr>dc_pc := AtInsert updated\<rparr>, s1))
      | AtInsert updated \<Rightarrow>
          (c\<lparr>dc_pc := Returned updated\<rparr>,
           insertCreditLog
             \<lparr>cl_userId = dc_userId c, cl_action = dc_action c, cl_amount = - dc_amount c,
               cl_description = dc_description c\<rparr> s)
      | Returned r \<Rightarrow> (c, s))"

text \<open>
  Two calls in progress and a schedule: the list says which call executes its next
  statement.
\<close>

datatype turn = First | Second

fun interleave :: "turn list \<Rightarrow> deduct_call \<times> deduct_call \<times> db \<Rightarrow> deduct_call \<times> deduct_call \<times> db" where
  "interleave [] cfg = cfg"
| "interleave (First # ts) (c1, c2, s) =
     (let (c1', s') = deduct_advance c1 s in interleave ts (c1', c2, s'))"
| "interleave (Second # ts) (c1, c2, s) =
     (let (c2', s') = deduct_advance c2 s in interleave ts (c1, c2', s'))"

definition succeeded :: "deduct_call \<Rightarrow> bool" where
  "succeeded c = (case dc_pc c of Returned (Some _) \<Rightarrow> True | _ \<Rightarrow> False)"

definition failed :: "deduct_call \<Rightarrow> bool" where
  "failed c = (dc_pc c = Returned None)"

text \<open>A call that runs its three statements with nothing in between is \<open>deductCredits\<close>.\<close>

lemma deduct_advance_alone:
  "deduct_advance (deduct_call uid amt act descr) s = (c1, s1) \<Longrightarrow>
   deduct_advance c1 s1 = (c2, s2) \<Longrightarrow>
   deduct_advance c2 s2 = (c3, s3) \<Longrightarrow>
   (\<exists>r. dc_pc c3 = Returned r \<and> deductCredits uid amt act descr s = (r, s3))"
  by (auto simp: deduct_advance_def deduct_call_def deductCredits_def getCredits_def
      updateBalance_def insertCreditLog_def Let_def split: option.splits if_splits)

text \<open>
  What every schedule preserves: the row of user \<open>v\<close> exists with a balance that is not
  negative, and a call about to update that row has read a balance that covers its
  amount.
\<close>

definition balance_nonneg :: "string \<Rightarrow> db \<Rightarrow> bool" where
  "balance_nonneg v s = (case credits s v of None \<Rightarrow> False | Some b \<Rightarrow> 0 \<le> b)"

definition call_covered :: "string \<Rightarrow> deduct_call \<Rightarrow> bool" where
  "call_covered v c =
     (case dc_pc c of
        AtUpdate cur \<Rightarrow> dc_userId c \<noteq> v \<or> dc_amount c \<le> cr_balance cur
      | _ \<Rightarrow> True)"

lemma deduct_advance_nonneg:
  "balance_nonneg v s \<Longrightarrow> call_covered v c \<Longrightarrow> deduct_advance c s = (c', s') \<Longrightarrow>
   balance_nonneg v s' \<and> call_covered v c'"
  by (auto simp: balance_nonneg_def call_covered_def deduct_advance_def getCredits_def
      updateBalance_def insertCreditLog_def Let_def
      split: deduct_pc.splits option.splits if_splits)

lemma interleave_nonneg:
  "balance_nonneg v s \<Longrightarrow> call_covered v c1 \<Longrightarrow> call_covered v c2 \<Longrightarrow>
   interleave ts (c1, c2, s) = (d1, d2, s') \<Longrightarrow> balance_nonneg v s'"
proof (induction ts arbitrary: c1 c2 s)
  case Nil
  then show ?case by simp
next
  case (Cons t ts)
  show ?case
  proof (cases t)
    case First
    obtain c1' s1 where a: "deduct_advance c1 s = (c1', s1)"
      by (cases "deduct_advance c1 s")
    from deduct_advance_nonneg [OF Cons.prems(1) Cons.prems(2) a]
    have "balance_nonneg v s1" and "call_covered v c1'" by simp_all
    moreover have "call_covered v c2" by (rule Cons.prems(3))
    moreover from Cons.prems(4) First a
    have "interleave ts (c1', c2, s1) = (d1, d2, s')" by simp
    ultimately show ?thesis using Cons.IH by blast
  next
    case Second
    obtain c2' s1 where a: "deduct_advance c2 s = (c2', s1)"
      by (cases "deduct_advance c2 s")
    from deduct_advance_nonneg [OF Cons.prems(1) Cons.prems(3) a]
    have "balance_nonneg v s1" and "call_covered v c2'" by simp_all
    moreover have "call_covered v c1" by (rule Cons.prems(2))
    moreover from Cons.prems(4) Second a
    have "interleave ts (c1, c2', s1) = (d1, d2, s')" by simp
    ultimately show ?thesis using Cons.IH by blast
  qed
qed

lemma deduct_call_covered: "call_covered v (deduct_call uid amt act descr)"
  by (simp add: call_covered_def deduct_call_def)

lemma serial_debits:
  "credits s uid = Some b \<Longrightarrow>
   deductCredits uid a1 act1 d1 s = (r1, s1) \<Longrightarrow>
   deductCredits uid a2 act2 d2 s1 = (r2, s2) \<Longrightarrow>
   (r1 \<noteq> None \<and> r2 \<noteq> None) = (a1 \<le> b \<and> a1 + a2 \<le> b)"
  by (auto simp: deductCredits_def getCredits_def updateBalance_def insertCreditLog_def Let_def
      split: option.splits if_splits)

text \<open>
  Claim C2, as stated, fails: with a balance of 10, two debits of 6 whose statements
  alternate both pass the check against the balance they have read, both write 4 and both
  return the updated row. Both succeed, the final balance is 4, and the log no longer sums
  to the balance.
\<close>

theorem interleaved_debits_both_succeed:
  "(case interleave [First, Second, First, Second, First, Second]
           (deduct_call ''u'' 6 ''booking'' ''d'', deduct_call ''u'' 6 ''booking'' ''d'',
            snd (initCredits ''u'' 10 emptyDb)) of
      (c1, c2, s) \<Rightarrow>
        succeeded c1 \<and> succeeded c2 \<and> \<not> failed c1 \<and> \<not> failed c2
        \<and> credits s ''u'' = Some 4 \<and> logSum ''u'' s = - 2)"
  by (simp add: deduct_advance_def deduct_call_def initCredits_def getCredits_def
      updateBalance_def insertCreditLog_def emptyDb_def succeeded_def failed_def logSum_def
      logsOf_def Let_def)

text \<open>
  Claim C2, amended. For debits that run one after the other: two debits succeed both
  exactly when the balance covers the first and the sum of the two, so two debits whose
  sum exceeds the balance never both succeed, and against a balance of 10 two debits of 6
  give one success and one failure and leave 4. For debits whose statements interleave
  in any order: a balance that is not negative before stays not negative.
\<close>

theorem debits_serial_exclusive_interleaved_nonneg:
  assumes "credits s uid = Some b"
  shows "(b < a1 + a2 \<longrightarrow>
            fst (deductCredits uid a1 act1 d1 s) = None
            \<or> fst (deductCredits uid a2 act2 d2 (snd (deductCredits uid a1 act1 d1 s))) = None)
         \<and> (b = 10 \<and> a1 = 6 \<and> a2 = 6 \<longrightarrow>
              fst (deductCredits uid a1 act1 d1 s) = Some \<lparr>cr_userId = uid, cr_balance = 4\<rparr>
              \<and> fst (deductCredits uid a2 act2 d2 (snd (deductCredits uid a1 act1 d1 s))) = None
              \<and> credits (snd (deductCredits uid a2 act2 d2 (snd (deductCredits uid a1 act1 d1 s))))
                  uid = Some 4)
         \<and> (0 \<le> b \<longrightarrow>
              balance_nonneg uid
                (snd (snd (interleave ts
                   (deduct_call uid a1 act1 d1, deduct_call uid a2 act2 d2, s)))))"
proof -
  have serial: "b < a1 + a2 \<Longrightarrow>
      fst (deductCredits uid a1 act1 d1 s) = None
      \<or> fst (deductCredits uid a2 act2 d2 (snd (deductCredits uid a1 act1 d1 s))) = None"
    using serial_debits [OF assms, of a1 act1 d1 _ _ a2 act2 d2]
    by (metis not_le prod.collapse)
  have example: "b = 10 \<and> a1 = 6 \<and> a2 = 6 \<Longrightarrow>
      fst (deductCredits uid a1 act1 d1 s) = Some \<lparr>cr_userId = uid, cr_balance = 4\<rparr>
      \<and> fst (deductCredits uid a2 act2 d2 (snd (deductCredits uid a1 act1 d1 s))) = None
      \<and> credits (snd (deductCredits uid a2 act2 d2 (snd (deductCredits uid a1 act1 d1 s))))
          uid = Some 4"
    using assms
    by (simp add: deductCredits_def getCredits_def updateBalance_def insertCreditLog_def)
  have any_order: "0 \<le> b \<Longrightarrow> balance_nonneg uid
      (snd (snd (interleave ts (deduct_call uid a1 act1 d1, deduct_call uid a2 act2 d2, s))))"
  proof -
    assume "0 \<le> b"
    with assms have "balance_nonneg uid s" by (simp add: balance_nonneg_def)
    then show ?thesis
      using interleave_nonneg [OF _ deduct_call_covered deduct_call_covered]
      by (metis prod.collapse)
  qed
  show ?thesis using serial example any_order by blast
qed

theorem debits_serial_exclusive_interleaved_nonneg_witness:
  "credits (snd (initCredits ''u'' 10 emptyDb)) ''u'' = Some 10
   \<and> fst (deductCredits ''u'' 6 ''booking'' ''d'' (snd (initCredits ''u'' 10 emptyDb))) =
       Some \<lparr>cr_userId = ''u'', cr_balance = 4\<rparr>
   \<and> fst (deductCredits ''u'' 6 ''booking'' ''d''
       (snd (deductCredits ''u'' 6 ''booking'' ''d'' (snd (initCredits ''u'' 10 emptyDb))))) = None
   \<and> credits (snd (deductCredits ''u'' 6 ''booking'' ''d''
       (snd (deductCredits ''u'' 6 ''booking'' ''d'' (snd (initCredits ''u'' 10 emptyDb))))))
       ''u'' = Some 4
   \<and> balance_nonneg ''u''
       (snd (snd (interleave [First, Second, First, Second, First, Second]
          (deduct_call ''u'' 6 ''booking'' ''d'', deduct_call ''u'' 6 ''booking'' ''d'',
           snd (initCredits ''u'' 10 emptyDb)))))"
proof -
  have row: "credits (snd (initCredits ''u'' 10 emptyDb)) ''u'' = Some 10"
    by (simp add: initCredits_def getCredits_def insertCreditLog_def emptyDb_def)
  from debits_serial_exclusive_interleaved_nonneg [OF row, of 6 6 "''booking''" "''d''"
      "''booking''" "''d''" "[First, Second, First, Second, First, Second]"] row
  show ?thesis by simp
qed

section \<open>Bookings (DatabaseStorage)\<close>

text \<open>
  JavaScript's \<open>x || d\<close> and \<open>if (x)\<close> on an optional string or number: \<open>undefined\<close>,
  the empty string and 0 are falsy.
\<close>

definition truthy :: "string option \<Rightarrow> bool" where
  "truthy x = (case x of None \<Rightarrow> False | Some v \<Rightarrow> v \<noteq> [])"

definition str_or :: "string option \<Rightarrow> string \<Rightarrow> string" where
  "str_or x d = (case x of None \<Rightarrow> d | Some v \<Rightarrow> if v = [] then d else v)"

definition int_or_null :: "int option \<Rightarrow> int option" where
  "int_or_null x = (case x of None \<Rightarrow> None | Some v \<Rightarrow> if v = 0 then None else Some v)"

definition str_or_null :: "string option \<Rightarrow> string option" where
  "str_or_null x = (case x of None \<Rightarrow> None | Some v \<Rightarrow> if v = [] then None else Some v)"

text \<open>\<open>Math.round\<close> rounds a half upwards; \<open>Math.ceil\<close> is the ceiling.\<close>

definition Math_round :: "rat \<Rightarrow> int" where
  "Math_round x = \<lfloor>x + 1 / 2\<rfloor>"

definition Math_ceil :: "rat \<Rightarrow> int" where
  "Math_ceil x = \<lceil>x\<rceil>"

definition getBooking :: "int \<Rightarrow> db \<Rightarrow> Booking option" where
  "getBooking bid s = bookings s bid"

text \<open>\<open>createBooking\<close>: the insert gives the row the next value of the serial key.\<close>

definition createBooking :: "Booking \<Rightarrow> db \<Rightarrow> Booking \<times> db" where
  "createBooking row s =
     (let newBooking = row\<lparr>bk_id := bookingSeq s\<rparr>
      in (newBooking,
          s\<lparr>bookings := (bookings s)(bookingSeq s \<mapsto> newBooking),
            bookingSeq := bookingSeq s + 1\<rparr>))"

definition updateBookingStatus :: "int \<Rightarrow> string \<Rightarrow> db \<Rightarrow> Booking option \<times> db" where
  "updateBookingStatus bid status s =
     (case bookings s bid of
        None \<Rightarrow> (None, s)
      | Some b \<Rightarrow>
          (let updated = b\<lparr>bk_status := status\<rparr>
           in (Some updated, s\<lparr>bookings := (bookings s)(bid \<mapsto> updated)\<rparr>)))"

text \<open>\<open>updateBookingStripeInfo\<close> sets the columns that the partial object names.\<close>

record stripe_info =
  si_stripeSessionId :: "string option"
  si_stripePaymentIntentId :: "string option"
  si_paymentMethod :: "string option"
  si_status :: "string option"

definition updateBookingStripeInfo :: "int \<Rightarrow> stripe_info \<Rightarrow> db \<Rightarrow> Booking option \<times> db" where
  "updateBookingStripeInfo bid data s =
     (case bookings s bid of
        None \<Rightarrow> (None, s)
      | Some b \<Rightarrow>
          (let updated = b
                 \<lparr>bk_stripeSessionId :=
                    (case si_stripeSessionId data of None \<Rightarrow> bk_stripeSessionId b | Some v \<Rightarrow> Some v),
                  bk_stripePaymentIntentId :=
                    (case si_stripePaymentIntentId data of
                       None \<Rightarrow> bk_stripePaymentIntentId b | Some v \<Rightarrow> Some v),
                  bk_paymentMethod :=
                    (case si_paymentMethod data of None \<Rightarrow> bk_paymentMethod b | Some v \<Rightarrow> v),
                  bk_status := (case si_status data of None \<Rightarrow> bk_status b | Some v \<Rightarrow> v)\<rparr>
           in (Some updated, s\<lparr>bookings := (bookings s)(bid \<mapsto> updated)\<rparr>)))"

text \<open>
  \<open>updateBookingInstallment\<close>: the status of the deposit (when the installment is
  \<open>deposit\<close>) or of the final installment (otherwise) is written; then, for a split
  booking, the first of three conditions on the row just written that holds sets the
  booking's status, and when none holds the status stays as it is.
\<close>

definition updateBookingInstallment ::
  "int \<Rightarrow> string \<Rightarrow> string \<Rightarrow> string option \<Rightarrow> db \<Rightarrow> Booking option \<times> db" where
  "updateBookingInstallment bid installment status stripeSessionId s =
     (case bookings s bid of
        None \<Rightarrow> (None, s)
      | Some b \<Rightarrow>
          (let updated =
                 (if installment = ''deposit'' then
                    b\<lparr>bk_depositStatus := Some status,
                      bk_depositStripeSessionId :=
                        (if truthy stripeSessionId then stripeSessionId
                         else bk_depositStripeSessionId b)\<rparr>
                  else
                    b\<lparr>bk_finalStatus := Some status,
                      bk_finalStripeSessionId :=
                        (if truthy stripeSessionId then stripeSessionId
                         else bk_finalStripeSessionId b)\<rparr>);
               s1 = s\<lparr>bookings := (bookings s)(bid \<mapsto> updated)\<rparr>
           in if bk_paymentStructure updated = ''split_50_50'' then
                (if bk_depositStatus updated = Some ''paid''
                    \<and> bk_finalStatus updated = Some ''paid''
                 then updateBookingStatus bid ''confirmed'' s1
                 else if bk_depositStatus updated = Some ''paid''
                    \<and> bk_finalStatus updated = Some ''pending''
                 then updateBookingStatus bid ''deposit_paid'' s1
                 else if bk_depositStatus updated = Some ''submitted''
                    \<or> bk_finalStatus updated = Some ''submitted''
                 then updateBookingStatus bid ''payment_submitted'' s1
                 else (Some updated, s1))
              else (Some updated, s1)))"

definition updateBookingEscrow :: "int \<Rightarrow> string \<Rightarrow> db \<Rightarrow> Booking option \<times> db" where
  "updateBookingEscrow bid escrowStatus s =
     (case bookings s bid of
        None \<Rightarrow> (None, s)
      | Some b \<Rightarrow>
          (let updated = b\<lparr>bk_escrowStatus := escrowStatus\<rparr>
           in (Some updated, s\<lparr>bookings := (bookings s)(bid \<mapsto> updated)\<rparr>)))"

section \<open>Request handlers\<close>

text \<open>
  A request carries what the identity provider has established: whether the caller is
  authenticated, the user id (\<open>claims.sub\<close>) and the e-mail address. A handler returns
  the response and the store after it; a response with an error status is a
  \<open>failure\<close>: 401, 403, 404 and 400 with the message of the response, the 400 that
  reports the credits needed and the credits at hand, the 400 of a body that the input
  schema rejects, and 500.
\<close>

record request =
  rq_authenticated :: bool
  rq_userId :: string
  rq_email :: "string option"

datatype failure =
    Unauthorized
  | Forbidden string
  | NotFound string
  | BadRequest string
  | InsufficientCredits int int
  | ValidationFailed
  | ServerError string

definition isAdmin :: "request \<Rightarrow> bool" where
  "isAdmin req = (case rq_email req of None \<Rightarrow> False | Some e \<Rightarrow> e \<noteq> [] \<and> e \<in> set ADMIN_EMAILS)"

definition ensureCredits :: "string \<Rightarrow> db \<Rightarrow> Credit \<times> db" where
  "ensureCredits uid s =
     (case getCredits uid s of
        None \<Rightarrow> initCredits uid INITIAL_CREDITS s
      | Some credit \<Rightarrow> (credit, s))"

definition getUserPlan :: "string \<Rightarrow> db \<Rightarrow> string" where
  "getUserPlan uid s =
     (case profiles s uid of
        None \<Rightarrow> ''free''
      | Some profile \<Rightarrow> str_or (pf_plan profile) ''free'')"

subsection \<open>Creating a booking\<close>

text \<open>
  The body of \<open>POST /api/bookings\<close> after the input schema has accepted it.
  \<open>basePay\<close> is stored in an \<open>integer\<close> column, so it is an integer here.
\<close>

record BookingInput =
  bi_postId :: "int option"
  bi_workerSlug :: "string option"
  bi_tier :: string
  bi_basePay :: int
  bi_boost :: "string option"
  bi_paymentStructure :: "string option"

text \<open>The two installment amounts the handler computes from the total in cents.\<close>

definition depositAmountOf :: "int \<Rightarrow> bool \<Rightarrow> int option" where
  "depositAmountOf totalAmountCents isSplit =
     (if isSplit then Some (Math_ceil (of_int totalAmountCents / 2)) else None)"

definition finalAmountOf :: "int \<Rightarrow> bool \<Rightarrow> int option" where
  "finalAmountOf totalAmountCents isSplit =
     (if isSplit then Some (totalAmountCents - Math_ceil (of_int totalAmountCents / 2))
      else None)"

text \<open>
  The handler from the pricing on: the total is computed in the money unit of
  \<open>calculateTotal\<close> and turned into cents by \<open>Math.round(x * 100)\<close>. Columns that the
  handler does not name get the default of the schema.
\<close>

definition bookingsCreate_insert :: "string \<Rightarrow> BookingInput \<Rightarrow> db \<Rightarrow> (failure + Booking) \<times> db" where
  "bookingsCreate_insert buyerUid input s =
     (let pricing = calculateTotal (of_int (bi_basePay input)) (bi_tier input)
                      (str_or (bi_boost input) ''None'');
          totalAmountCents = Math_round (p_totalAmount pricing * 100);
          payStructure = str_or (bi_paymentStructure input) ''full_upfront'';
          isSplit = (payStructure = ''split_50_50'');
          depositAmount = depositAmountOf totalAmountCents isSplit;
          finalAmount = finalAmountOf totalAmountCents isSplit;
          (booking, s1) = createBooking
            \<lparr>bk_id = 0,
             bk_postId = int_or_null (bi_postId input),
             bk_workerSlug = str_or_null (bi_workerSlug input),
             bk_buyerUid = buyerUid,
             bk_tier = bi_tier input,
             bk_basePay = bi_basePay input,
             bk_platformFee = Math_round (p_tierFee pricing * 100),
             bk_boost = str_or (bi_boost input) ''None'',
             bk_boostFee = Math_round (p_boostFee pricing * 100),
             bk_totalAmount = totalAmountCents,
             bk_status = ''pending_payment'',
             bk_paymentMethod = ''external'',
             bk_stripeSessionId = None,
             bk_stripePaymentIntentId = None,
             bk_paymentStructure = payStructure,
             bk_depositAmount = depositAmount,
             bk_finalAmount = finalAmount,
             bk_depositStatus = (if isSplit then Some ''pending'' else None),
             bk_finalStatus = (if isSplit then Some ''pending'' else None),
             bk_depositStripeSessionId = None,
             bk_finalStripeSessionId = None,
             bk_escrowStatus = ''none''\<rparr> s
      in (Inr booking, s1))"

definition bookingsCreate :: "request \<Rightarrow> BookingInput option \<Rightarrow> db \<Rightarrow> (failure + Booking) \<times> db" where
  "bookingsCreate req body s =
     (if \<not> rq_authenticated req then (Inl Unauthorized, s)
      else case body of
        None \<Rightarrow> (Inl ValidationFailed, s)
      | Some input \<Rightarrow>
          (let buyerUid = rq_userId req;
               plan = getUserPlan buyerUid s;
               applyCost = getApplyCreditCost
           in if \<not> canAfford 0 applyCost plan then
                (let (credit, s1) = ensureCredits buyerUid s
                 in if \<not> canAfford (cr_balance credit) applyCost plan then
                      (Inl (BadRequest ''Insufficient credits. Need 1 credit to book.''), s1)
                    else bookingsCreate_insert buyerUid input
                           (snd (deductCredits buyerUid applyCost ''booking''
                                   ''Booking request created'' s1)))
              else bookingsCreate_insert buyerUid input s))"

text \<open>Rounding and ceiling on the values that occur: integers and halves of integers.\<close>

lemma Math_round_of_int: "Math_round (of_int n) = n"
  unfolding Math_round_def by (rule floor_unique) simp_all

lemma Math_round_numeral: "Math_round (numeral k) = numeral k"
  using Math_round_of_int [of "numeral k"] by simp

lemma Math_round_zero: "Math_round 0 = 0"
  using Math_round_of_int [of 0] by simp

lemma Math_ceil_half: "Math_ceil (of_int T / 2) = (T + 1) div 2"
proof -
  have "\<lceil>(of_int T :: rat) / of_int 2\<rceil> = - (- T div 2)"
    by (rule ceiling_divide_eq_div)
  then show ?thesis by (simp add: Math_ceil_def)
qed

lemma Math_ceil_numeral: "Math_ceil (numeral k) = numeral k"
  by (simp add: Math_ceil_def)

lemma Math_ceil_numeral_half: "Math_ceil (numeral k / 2) = (numeral k + 1) div 2"
  using Math_ceil_half [of "numeral k"] by simp

lemmas rounding = Math_round_numeral Math_round_zero Math_ceil_numeral Math_ceil_numeral_half

lemma bookingsCreate_insert_split:
  assumes "bookingsCreate_insert uid input s = (Inr b, s')"
      and "bk_paymentStructure b = ''split_50_50''"
  shows "bk_depositAmount b = Some (Math_ceil (of_int (bk_totalAmount b) / 2))
       \<and> bk_finalAmount b = Some (bk_totalAmount b - Math_ceil (of_int (bk_totalAmount b) / 2))
       \<and> bk_status b = ''pending_payment''
       \<and> bk_depositStatus b = Some ''pending'' \<and> bk_finalStatus b = Some ''pending''
       \<and> bookings s' (bk_id b) = Some b"
  using assms
  by (auto simp: bookingsCreate_insert_def createBooking_def depositAmountOf_def
      finalAmountOf_def Let_def)

lemma bookingsCreate_reaches_insert:
  assumes "bookingsCreate req body s = (Inr b, s')"
  shows "\<exists>uid input s0. bookingsCreate_insert uid input s0 = (Inr b, s')"
  using assms
  by (auto simp: bookingsCreate_def Let_def split: if_splits option.splits prod.splits)

text \<open>Two requests used as examples: a buyer without a credit row books on the free plan.\<close>

definition buyer_request :: request where
  "buyer_request = \<lparr>rq_authenticated = True, rq_userId = ''buyer'', rq_email = None\<rparr>"

definition split_input :: "string \<Rightarrow> int \<Rightarrow> BookingInput" where
  "split_input tier basePay =
     \<lparr>bi_postId = None, bi_workerSlug = Some ''dj-max'', bi_tier = tier, bi_basePay = basePay,
      bi_boost = None, bi_paymentStructure = Some ''split_50_50''\<rparr>"

lemmas booking_creation_defs =
  bookingsCreate_def bookingsCreate_insert_def createBooking_def depositAmountOf_def
  finalAmountOf_def Let_def buyer_request_def split_input_def emptyDb_def getUserPlan_def
  getApplyCreditCost_def CREDIT_COSTS_apply_def canAfford_def ensureCredits_def getCredits_def
  initCredits_def INITIAL_CREDITS_def insertCreditLog_def deductCredits_def updateBalance_def
  calculateTotal_def TIER_FEES_def BOOST_FEES_def str_or_def str_or_null_def int_or_null_def

text \<open>
  Claim C4. Every booking that \<open>POST /api/bookings\<close> creates with payment structure
  \<open>split_50_50\<close> and total \<open>T\<close> (in cents) has deposit \<open>ceil(T/2)\<close> and final amount
  \<open>T - ceil(T/2)\<close>, which add up to \<open>T\<close>; it starts with status \<open>pending_payment\<close> and
  both installment statuses \<open>pending\<close>, and it is the row stored under its id. For
  \<open>T = 10000\<close> the amounts are 5000 and 5000, for \<open>T = 10001\<close> they are 5001 and 5000.
\<close>

theorem split_booking_amounts:
  assumes "bookingsCreate req body s = (Inr b, s')"
      and "bk_paymentStructure b = ''split_50_50''"
  shows "bk_depositAmount b = Some (Math_ceil (of_int (bk_totalAmount b) / 2))
       \<and> bk_finalAmount b = Some (bk_totalAmount b - Math_ceil (of_int (bk_totalAmount b) / 2))
       \<and> (\<exists>d f. bk_depositAmount b = Some d \<and> bk_finalAmount b = Some f
                \<and> d + f = bk_totalAmount b)
       \<and> bk_status b = ''pending_payment''
       \<and> bk_depositStatus b = Some ''pending'' \<and> bk_finalStatus b = Some ''pending''
       \<and> bookings s' (bk_id b) = Some b
       \<and> depositAmountOf 10000 True = Some 5000 \<and> finalAmountOf 10000 True = Some 5000
       \<and> depositAmountOf 10001 True = Some 5001 \<and> finalAmountOf 10001 True = Some 5000"
proof -
  from bookingsCreate_reaches_insert [OF assms(1)]
  obtain uid input s0 where "bookingsCreate_insert uid input s0 = (Inr b, s')" by blast
  from bookingsCreate_insert_split [OF this assms(2)]
  have row: "bk_depositAmount b = Some (Math_ceil (of_int (bk_totalAmount b) / 2))"
    "bk_finalAmount b = Some (bk_totalAmount b - Math_ceil (of_int (bk_totalAmount b) / 2))"
    "bk_status b = ''pending_payment''"
    "bk_depositStatus b = Some ''pending''" "bk_finalStatus b = Some ''pending''"
    "bookings s' (bk_id b) = Some b"
    by simp_all
  have examples: "depositAmountOf 10000 True = Some 5000 \<and> finalAmountOf 10000 True = Some 5000
      \<and> depositAmountOf 10001 True = Some 5001 \<and> finalAmountOf 10001 True = Some 5000"
    by (simp add: depositAmountOf_def finalAmountOf_def rounding)
  from row examples show ?thesis by simp
qed

text \<open>
  A base pay of 98 in tier Projects gives the total 10000, split 5000 and 5000; a base pay
  of 100 in tier Slots gives the odd total 10025, split 5013 and 5012.
\<close>

theorem split_booking_amounts_witness:
  "bk_paymentStructure (projr (fst (bookingsCreate buyer_request
       (Some (split_input ''Projects'' 98)) emptyDb))) = ''split_50_50''
   \<and> bk_totalAmount (projr (fst (bookingsCreate buyer_request
       (Some (split_input ''Projects'' 98)) emptyDb))) = 10000
   \<and> bk_depositAmount (projr (fst (bookingsCreate buyer_request
       (Some (split_input ''Projects'' 98)) emptyDb))) = Some 5000
   \<and> bk_finalAmount (projr (fst (bookingsCreate buyer_request
       (Some (split_input ''Projects'' 98)) emptyDb))) = Some 5000
   \<and> bk_status (projr (fst (bookingsCreate buyer_request
       (Some (split_input ''Projects'' 98)) emptyDb))) = ''pending_payment''
   \<and> bk_totalAmount (projr (fst (bookingsCreate buyer_request
       (Some (split_input ''Slots'' 100)) emptyDb))) = 10025
   \<and> bk_depositAmount (projr (fst (bookingsCreate buyer_request
       (Some (split_input ''Slots'' 100)) emptyDb))) = Some 5013
   \<and> bk_finalAmount (projr (fst (bookingsCreate buyer_request
       (Some (split_input ''Slots'' 100)) emptyDb))) = Some 5012"
proof -
  obtain b s' where r: "bookingsCreate buyer_request (Some (split_input ''Projects'' 98)) emptyDb
      = (Inr b, s')"
    by (simp add: booking_creation_defs)
  have split: "bk_paymentStructure b = ''split_50_50''"
    and total: "bk_totalAmount b = 10000"
    using r by (auto simp: booking_creation_defs rounding)
  obtain b2 s2 where r2: "bookingsCreate buyer_request (Some (split_input ''Slots'' 100)) emptyDb
      = (Inr b2, s2)"
    by (simp add: booking_creation_defs)
  have split2: "bk_paymentStructure b2 = ''split_50_50''"
    and total2: "bk_totalAmount b2 = 10025"
    using r2 by (auto simp: booking_creation_defs rounding)
  from split_booking_amounts [OF r split] split_booking_amounts [OF r2 split2]
    r r2 split total total2
  show ?thesis by (simp add: rounding)
qed

subsection \<open>The unit of the money total\<close>

text \<open>
  Claim C8, as stated, fails: \<open>calculateTotal\<close> adds the entry of \<open>TIER_FEES\<close> to the
  base pay as it is, and the entry for Projects is 2. With a base pay of 10000 the tier
  fee is 2 and the total 10002, not 200 and 10200.
\<close>

theorem calculateTotal_not_in_cents:
  "calculateTotal 10000 ''Projects'' ''None'' =
     \<lparr>p_basePay = 10000, p_tierFee = 2, p_boostFee = 0, p_totalAmount = 10002\<rparr>
   \<and> p_tierFee (calculateTotal 10000 ''Projects'' ''None'') \<noteq> 200
   \<and> p_totalAmount (calculateTotal 10000 ''Projects'' ''None'') \<noteq> 10200"
  by (simp add: calculateTotal_def TIER_FEES_def BOOST_FEES_def)

text \<open>
  Claim C8, amended. \<open>calculateTotal\<close> works in the major money unit: for tier Projects
  and boost None it returns tier fee 2, boost fee 0 and the base pay plus 2, so a base pay
  of 100 gives the total 102. The booking handler turns these into cents with
  \<open>Math.round(x * 100)\<close>: the booking created for base pay 100 stores platform fee 200,
  boost fee 0 and total amount 10200, and the base pay as it was given.
\<close>

theorem calculateTotal_major_units_booking_cents:
  "calculateTotal basePay ''Projects'' ''None'' =
     \<lparr>p_basePay = basePay, p_tierFee = 2, p_boostFee = 0, p_totalAmount = basePay + 2\<rparr>
   \<and> calculateTotal 100 ''Projects'' ''None'' =
       \<lparr>p_basePay = 100, p_tierFee = 2, p_boostFee = 0, p_totalAmount = 102\<rparr>
   \<and> map_sum id (\<lambda>b. (bk_basePay b, bk_platformFee b, bk_boostFee b, bk_totalAmount b))
        (fst (bookingsCreate_insert uid
           \<lparr>bi_postId = pid, bi_workerSlug = slug, bi_tier = ''Projects'', bi_basePay = 100,
            bi_boost = Some ''None'', bi_paymentStructure = ps\<rparr> s)) =
       Inr (100, 200, 0, 10200)"
  by (simp add: calculateTotal_def TIER_FEES_def BOOST_FEES_def bookingsCreate_insert_def
      createBooking_def Let_def str_or_def rounding split_beta)

subsection \<open>Marking paid, confirming and cancelling\<close>

text \<open>
  The installment is the field of that name in the request body, absent or any string.
  \<open>named_installment\<close> is the test both handlers make on it: it is given and it is
  one of \<open>deposit\<close> and \<open>final\<close>.
\<close>

definition named_installment :: "string option \<Rightarrow> string option" where
  "named_installment installment =
     (case installment of
        None \<Rightarrow> None
      | Some i \<Rightarrow> if i \<in> set [''deposit'', ''final''] then Some i else None)"

text \<open>\<open>POST /api/bookings/:id/mark-paid\<close>, for the buyer.\<close>

definition bookingsMarkPaid ::
  "request \<Rightarrow> int \<Rightarrow> string option \<Rightarrow> db \<Rightarrow> (failure + Booking option) \<times> db" where
  "bookingsMarkPaid req bookingId installment s =
     (if \<not> rq_authenticated req then (Inl Unauthorized, s)
      else case getBooking bookingId s of
        None \<Rightarrow> (Inl (NotFound ''Booking not found''), s)
      | Some booking \<Rightarrow>
          if bk_buyerUid booking \<noteq> rq_userId req then (Inl (Forbidden ''Not your booking''), s)
          else if bk_paymentStructure booking = ''split_50_50'' then
            (case named_installment installment of
               None \<Rightarrow>
                 (Inl (BadRequest
                    (''Must specify installment: 'deposit' or 'final'' @ [CHR 0x27])), s)
             | Some i \<Rightarrow>
                 if i = ''final'' \<and> bk_depositStatus booking \<noteq> Some ''paid''
                 then (Inl (BadRequest
                         ''Deposit must be confirmed before paying the final installment''), s)
                 else
                   (let (updated, s1) = updateBookingInstallment bookingId i ''submitted'' None s
                    in (Inr updated, s1)))
          else
            (let (updated, s1) = updateBookingStatus bookingId ''payment_submitted'' s
             in (Inr updated, s1)))"

text \<open>
  \<open>POST /api/bookings/:id/confirm\<close>, for administrators: on a split booking a named
  installment is set to \<open>paid\<close>; in every other case the status is set to
  \<open>confirmed\<close>.
\<close>

definition bookingsConfirm ::
  "request \<Rightarrow> int \<Rightarrow> string option \<Rightarrow> db \<Rightarrow> (failure + Booking option) \<times> db" where
  "bookingsConfirm req bookingId installment s =
     (if \<not> rq_authenticated req then (Inl Unauthorized, s)
      else if \<not> isAdmin req then (Inl (Forbidden ''Admin access required''), s)
      else case getBooking bookingId s of
        None \<Rightarrow> (Inl (NotFound ''Booking not found''), s)
      | Some booking \<Rightarrow>
          (case (if bk_paymentStructure booking = ''split_50_50''
                 then named_installment installment else None) of
             Some i \<Rightarrow>
               (let (updated, s1) = updateBookingInstallment bookingId i ''paid'' None s
                in (Inr updated, s1))
           | None \<Rightarrow>
               (let (updated, s1) = updateBookingStatus bookingId ''confirmed'' s
                in (Inr updated, s1))))"

text \<open>\<open>POST /api/bookings/:id/cancel\<close>, for the buyer or an administrator.\<close>

definition bookingsCancel :: "request \<Rightarrow> int \<Rightarrow> db \<Rightarrow> (failure + Booking option) \<times> db" where
  "bookingsCancel req bookingId s =
     (if \<not> rq_authenticated req then (Inl Unauthorized, s)
      else case getBooking bookingId s of
        None \<Rightarrow> (Inl (NotFound ''Booking not found''), s)
      | Some booking \<Rightarrow>
          if bk_buyerUid booking \<noteq> rq_userId req \<and> \<not> isAdmin req
          then (Inl (Forbidden ''Not authorized''), s)
          else
            (let (updated, s1) = updateBookingStatus bookingId ''cancelled'' s
             in (Inr updated, s1)))"

text \<open>
  Example data: an administrator, and the store after the buyer has created one split
  booking (it gets the id 1), with the row that is stored.
\<close>

definition admin_request :: request where
  "admin_request =
     \<lparr>rq_authenticated = True, rq_userId = ''admin'',
      rq_email = Some ''cubansreupspots@gmail.com''\<rparr>"

definition fresh_split_store :: db where
  "fresh_split_store =
     snd (bookingsCreate buyer_request (Some (split_input ''Projects'' 98)) emptyDb)"

definition fresh_split_booking :: Booking where
  "fresh_split_booking =
     \<lparr>bk_id = 1, bk_postId = None, bk_workerSlug = Some ''dj-max'', bk_buyerUid = ''buyer'',
      bk_tier = ''Projects'', bk_basePay = 98, bk_platformFee = 200, bk_boost = ''None'',
      bk_boostFee = 0, bk_totalAmount = 10000, bk_status = ''pending_payment'',
      bk_paymentMethod = ''external'', bk_stripeSessionId = None,
      bk_stripePaymentIntentId = None, bk_paymentStructure = ''split_50_50'',
      bk_depositAmount = Some 5000, bk_finalAmount = Some 5000,
      bk_depositStatus = Some ''pending'', bk_finalStatus = Some ''pending'',
      bk_depositStripeSessionId = None, bk_finalStripeSessionId = None,
      bk_escrowStatus = ''none''\<rparr>"

definition confirmed_store :: db where
  "confirmed_store = snd (bookingsConfirm admin_request 1 None fresh_split_store)"

lemma fresh_split_store_booking: "getBooking 1 fresh_split_store = Some fresh_split_booking"
  by code_simp

lemma confirmed_store_booking:
  "getBooking 1 confirmed_store = Some (fresh_split_booking\<lparr>bk_status := ''confirmed''\<rparr>)"
  by code_simp

lemma admin_request_isAdmin: "rq_authenticated admin_request \<and> isAdmin admin_request"
  by (simp add: admin_request_def isAdmin_def ADMIN_EMAILS_def)

lemma updateBookingInstallment_split:
  assumes "getBooking bid s = Some b" and "bk_paymentStructure b = ''split_50_50''"
  shows "\<exists>b'. updateBookingInstallment bid inst st sid s =
              (Some b', s\<lparr>bookings := (bookings s)(bid \<mapsto> b')\<rparr>)
        \<and> (if inst = ''deposit''
            then bk_depositStatus b' = Some st \<and> bk_finalStatus b' = bk_finalStatus b
            else bk_finalStatus b' = Some st \<and> bk_depositStatus b' = bk_depositStatus b)
        \<and> bk_status b' =
           (if bk_depositStatus b' = Some ''paid'' \<and> bk_finalStatus b' = Some ''paid''
            then ''confirmed''
            else if bk_depositStatus b' = Some ''paid'' \<and> bk_finalStatus b' = Some ''pending''
            then ''deposit_paid''
            else if bk_depositStatus b' = Some ''submitted''
                    \<or> bk_finalStatus b' = Some ''submitted''
            then ''payment_submitted''
            else bk_status b)"
  using assms
  by (simp add: updateBookingInstallment_def updateBookingStatus_def getBooking_def Let_def)

lemma confirm_deposit_then_final:
  assumes "getBooking bid s = Some b" and "bk_paymentStructure b = ''split_50_50''"
    and "rq_authenticated req" and "isAdmin req"
    and "bk_depositStatus b = Some ''pending''" and "bk_finalStatus b = Some ''pending''"
  shows "\<exists>b1 s1 b2 s2. bookingsConfirm req bid (Some ''deposit'') s = (Inr (Some b1), s1)
      \<and> bk_status b1 = ''deposit_paid''
      \<and> bookingsConfirm req bid (Some ''final'') s1 = (Inr (Some b2), s2)
      \<and> bk_status b2 = ''confirmed''"
  using assms
  by (simp add: bookingsConfirm_def named_installment_def updateBookingInstallment_def
      updateBookingStatus_def getBooking_def Let_def)

lemma confirm_without_installment:
  assumes "getBooking bid s = Some b" and "rq_authenticated req" and "isAdmin req"
  shows "bookingsConfirm req bid None s =
           (Inr (Some (b\<lparr>bk_status := ''confirmed''\<rparr>)),
            s\<lparr>bookings := (bookings s)(bid \<mapsto> b\<lparr>bk_status := ''confirmed''\<rparr>)\<rparr>)"
  using assms
  by (simp add: bookingsConfirm_def named_installment_def updateBookingStatus_def
      getBooking_def Let_def)

lemma cancel_from_any_status:
  assumes "getBooking bid s = Some b" and "rq_authenticated req"
    and "bk_buyerUid b = rq_userId req \<or> isAdmin req"
  shows "bookingsCancel req bid s =
           (Inr (Some (b\<lparr>bk_status := ''cancelled''\<rparr>)),
            s\<lparr>bookings := (bookings s)(bid \<mapsto> b\<lparr>bk_status := ''cancelled''\<rparr>)\<rparr>)"
  using assms
  by (auto simp add: bookingsCancel_def updateBookingStatus_def getBooking_def Let_def)

lemma markPaid_refused:
  assumes "getBooking bid s = Some b" and "bk_paymentStructure b = ''split_50_50''"
    and "bk_depositStatus b \<noteq> Some ''paid''"
  shows "(\<exists>e. bookingsMarkPaid req bid (Some ''final'') s = (Inl e, s))
          \<and> (rq_authenticated req \<and> rq_userId req = bk_buyerUid b \<longrightarrow>
               bookingsMarkPaid req bid (Some ''final'') s =
                 (Inl (BadRequest
                    ''Deposit must be confirmed before paying the final installment''), s))"
  using assms
  by (simp add: bookingsMarkPaid_def named_installment_def)

lemma markPaid_accepted:
  assumes b: "getBooking bid s = Some b" and split: "bk_paymentStructure b = ''split_50_50''"
    and ok: "bookingsMarkPaid req bid installment s = (Inr r, s')"
  shows "\<exists>b' i. named_installment installment = Some i \<and> r = Some b'
               \<and> getBooking bid s' = Some b'
               \<and> (i = ''final'' \<longrightarrow> bk_depositStatus b = Some ''paid'')
               \<and> (if i = ''deposit'' then bk_depositStatus b' else bk_finalStatus b') =
                   Some ''submitted''"
proof (cases "named_installment installment")
  case None
  with b split ok show ?thesis
    by (simp add: bookingsMarkPaid_def split: if_splits)
next
  case (Some i)
  from b split ok Some
  have paid: "i = ''final'' \<longrightarrow> bk_depositStatus b = Some ''paid''"
    and run: "updateBookingInstallment bid i ''submitted'' None s = (r, s')"
    by (auto simp: bookingsMarkPaid_def split: if_splits prod.splits)
  from updateBookingInstallment_split [OF b split, of i "''submitted''" None] run
  obtain b' where "r = Some b'" "s' = s\<lparr>bookings := (bookings s)(bid \<mapsto> b')\<rparr>"
    "if i = ''deposit'' then bk_depositStatus b' = Some ''submitted''
     else bk_finalStatus b' = Some ''submitted''"
    by (auto split: if_splits)
  with Some paid show ?thesis by (auto simp: getBooking_def)
qed

text \<open>
  Claim C6. On a split booking, a request to mark the final installment as paid while the
  deposit is not \<open>paid\<close> gets an error response from every caller and leaves the store
  as it was; from the buyer the error is the 400 that names the deposit. Whenever a
  mark-paid request on a split booking is accepted, it named one of the two installments,
  the final one only with the deposit paid, and that installment's status is
  \<open>submitted\<close> in the row returned and stored.
\<close>

theorem markPaid_final_needs_paid_deposit:
  assumes "getBooking bid s = Some b" and "bk_paymentStructure b = ''split_50_50''"
  shows "(bk_depositStatus b \<noteq> Some ''paid'' \<longrightarrow>
            (\<exists>e. bookingsMarkPaid req bid (Some ''final'') s = (Inl e, s))
          \<and> (rq_authenticated req \<and> rq_userId req = bk_buyerUid b \<longrightarrow>
               bookingsMarkPaid req bid (Some ''final'') s =
                 (Inl (BadRequest
                    ''Deposit must be confirmed before paying the final installment''), s)))
       \<and> (\<forall>r s'. bookingsMarkPaid req bid installment s = (Inr r, s') \<longrightarrow>
            (\<exists>b' i. named_installment installment = Some i \<and> r = Some b'
               \<and> getBooking bid s' = Some b'
               \<and> (i = ''final'' \<longrightarrow> bk_depositStatus b = Some ''paid'')
               \<and> (if i = ''deposit'' then bk_depositStatus b' else bk_finalStatus b') =
                   Some ''submitted''))"
proof (intro conjI impI allI)
  assume "bk_depositStatus b \<noteq> Some ''paid''"
  from markPaid_refused [OF assms this]
  show "\<exists>e. bookingsMarkPaid req bid (Some ''final'') s = (Inl e, s)" by blast
next
  assume "bk_depositStatus b \<noteq> Some ''paid''"
    and "rq_authenticated req \<and> rq_userId req = bk_buyerUid b"
  with markPaid_refused [OF assms, of req]
  show "bookingsMarkPaid req bid (Some ''final'') s =
      (Inl (BadRequest ''Deposit must be confirmed before paying the final installment''), s)"
    by blast
next
  fix r s'
  assume "bookingsMarkPaid req bid installment s = (Inr r, s')"
  from markPaid_accepted [OF assms this]
  show "\<exists>b' i. named_installment installment = Some i \<and> r = Some b'
               \<and> getBooking bid s' = Some b'
               \<and> (i = ''final'' \<longrightarrow> bk_depositStatus b = Some ''paid'')
               \<and> (if i = ''deposit'' then bk_depositStatus b' else bk_finalStatus b') =
                   Some ''submitted''" .
qed

text \<open>
  On the fresh split booking the buyer's request for the final installment is refused and
  nothing changes; the request for the deposit is accepted and sets it to \<open>submitted\<close>.
\<close>

theorem markPaid_final_needs_paid_deposit_witness:
  "getBooking 1 fresh_split_store = Some fresh_split_booking
   \<and> bk_paymentStructure fresh_split_booking = ''split_50_50''
   \<and> bookingsMarkPaid buyer_request 1 (Some ''final'') fresh_split_store =
       (Inl (BadRequest ''Deposit must be confirmed before paying the final installment''),
        fresh_split_store)
   \<and> (\<exists>b'. fst (bookingsMarkPaid buyer_request 1 (Some ''deposit'') fresh_split_store) =
              Inr (Some b')
          \<and> bk_depositStatus b' = Some ''submitted'')"
proof -
  have split: "bk_paymentStructure fresh_split_booking = ''split_50_50''"
    and unpaid: "bk_depositStatus fresh_split_booking \<noteq> Some ''paid''"
    and buyer: "rq_authenticated buyer_request
                \<and> rq_userId buyer_request = bk_buyerUid fresh_split_booking"
    by (simp_all add: fresh_split_booking_def buyer_request_def)
  note claim = markPaid_final_needs_paid_deposit [OF fresh_split_store_booking split]
  from claim [of buyer_request] unpaid buyer
  have refused: "bookingsMarkPaid buyer_request 1 (Some ''final'') fresh_split_store =
       (Inl (BadRequest ''Deposit must be confirmed before paying the final installment''),
        fresh_split_store)"
    by blast
  have "fst (bookingsMarkPaid buyer_request 1 (Some ''deposit'') fresh_split_store) =
      Inr (Some (fresh_split_booking
        \<lparr>bk_status := ''payment_submitted'', bk_depositStatus := Some ''submitted''\<rparr>))"
    by code_simp
  then obtain r s' where accepted:
    "bookingsMarkPaid buyer_request 1 (Some ''deposit'') fresh_split_store = (Inr r, s')"
    by (metis prod.collapse)
  from claim [of buyer_request "Some ''deposit''"] accepted
  obtain b' i where "named_installment (Some ''deposit'') = Some i" "r = Some b'"
    "(if i = ''deposit'' then bk_depositStatus b' else bk_finalStatus b') = Some ''submitted''"
    by blast
  then have "r = Some b' \<and> bk_depositStatus b' = Some ''submitted''"
    by (simp add: named_installment_def)
  with accepted have "\<exists>b'. fst (bookingsMarkPaid buyer_request 1 (Some ''deposit'') fresh_split_store) =
              Inr (Some b') \<and> bk_depositStatus b' = Some ''submitted''"
    by simp
  with fresh_split_store_booking split refused show ?thesis by blast
qed

subsection \<open>The status after an installment is written\<close>

text \<open>
  Claim C5, as stated, fails: the status after an installment write is not a function of
  the two installment statuses. When none of the three conditions holds, the status is
  left as it was. An administrator who confirms the final installment of the fresh split
  booking leaves it with deposit \<open>pending\<close>, final \<open>paid\<close> and status
  \<open>pending_payment\<close>; the same request after the buyer has cancelled the booking leaves
  it with the same two installment statuses and status \<open>cancelled\<close>.
\<close>

theorem installment_statuses_do_not_determine_status:
  "map_option (\<lambda>b. (bk_depositStatus b, bk_finalStatus b, bk_status b))
     (projr (fst (bookingsConfirm admin_request 1 (Some ''final'') fresh_split_store))) =
     Some (Some ''pending'', Some ''paid'', ''pending_payment'')
   \<and> map_option (\<lambda>b. (bk_depositStatus b, bk_finalStatus b, bk_status b))
       (projr (fst (bookingsConfirm admin_request 1 (Some ''final'')
          (snd (bookingsCancel buyer_request 1 fresh_split_store))))) =
       Some (Some ''pending'', Some ''paid'', ''cancelled'')"
  by code_simp

text \<open>
  Claim C5, amended. On a split booking, \<open>updateBookingInstallment\<close> writes the named
  installment's status and then sets the booking's status by the first rule that matches
  the row just written: both installments \<open>paid\<close> give \<open>confirmed\<close>; deposit
  \<open>paid\<close> with final \<open>pending\<close> gives \<open>deposit_paid\<close>; either one \<open>submitted\<close>
  gives \<open>payment_submitted\<close>; when no rule matches, the status stays what it was before
  the write. Consequently an administrator confirming the deposit and then the final
  installment of a booking whose installments are both \<open>pending\<close> moves the status to
  \<open>deposit_paid\<close> and then to \<open>confirmed\<close>. A confirm request names at most one
  installment; one that names none sets the status to \<open>confirmed\<close> directly and leaves
  the installment statuses as they are.
\<close>

theorem installment_write_sets_status:
  assumes "getBooking bid s = Some b" and "bk_paymentStructure b = ''split_50_50''"
  shows "(\<exists>b'. updateBookingInstallment bid inst st sid s =
              (Some b', s\<lparr>bookings := (bookings s)(bid \<mapsto> b')\<rparr>)
          \<and> (if inst = ''deposit''
              then bk_depositStatus b' = Some st \<and> bk_finalStatus b' = bk_finalStatus b
              else bk_finalStatus b' = Some st \<and> bk_depositStatus b' = bk_depositStatus b)
          \<and> bk_status b' =
             (if bk_depositStatus b' = Some ''paid'' \<and> bk_finalStatus b' = Some ''paid''
              then ''confirmed''
              else if bk_depositStatus b' = Some ''paid'' \<and> bk_finalStatus b' = Some ''pending''
              then ''deposit_paid''
              else if bk_depositStatus b' = Some ''submitted''
                      \<or> bk_finalStatus b' = Some ''submitted''
              then ''payment_submitted''
              else bk_status b))
       \<and> (rq_authenticated req \<and> isAdmin req
            \<and> bk_depositStatus b = Some ''pending'' \<and> bk_finalStatus b = Some ''pending'' \<longrightarrow>
            (\<exists>b1 s1 b2 s2.
                bookingsConfirm req bid (Some ''deposit'') s = (Inr (Some b1), s1)
              \<and> bk_status b1 = ''deposit_paid''
              \<and> bookingsConfirm req bid (Some ''final'') s1 = (Inr (Some b2), s2)
              \<and> bk_status b2 = ''confirmed''))
       \<and> (rq_authenticated req \<and> isAdmin req \<longrightarrow>
            bookingsConfirm req bid None s =
              (Inr (Some (b\<lparr>bk_status := ''confirmed''\<rparr>)),
               s\<lparr>bookings := (bookings s)(bid \<mapsto> b\<lparr>bk_status := ''confirmed''\<rparr>)\<rparr>))"
proof (intro conjI impI)
  show "\<exists>b'. updateBookingInstallment bid inst st sid s =
              (Some b', s\<lparr>bookings := (bookings s)(bid \<mapsto> b')\<rparr>)
          \<and> (if inst = ''deposit''
              then bk_depositStatus b' = Some st \<and> bk_finalStatus b' = bk_finalStatus b
              else bk_finalStatus b' = Some st \<and> bk_depositStatus b' = bk_depositStatus b)
          \<and> bk_status b' =
             (if bk_depositStatus b' = Some ''paid'' \<and> bk_finalStatus b' = Some ''paid''
              then ''confirmed''
              else if bk_depositStatus b' = Some ''paid'' \<and> bk_finalStatus b' = Some ''pending''
              then ''deposit_paid''
              else if bk_depositStatus b' = Some ''submitted''
                      \<or> bk_finalStatus b' = Some ''submitted''
              then ''payment_submitted''
              else bk_status b)"
    by (rule updateBookingInstallment_split [OF assms])
next
  assume "rq_authenticated req \<and> isAdmin req
      \<and> bk_depositStatus b = Some ''pending'' \<and> bk_finalStatus b = Some ''pending''"
  then show "\<exists>b1 s1 b2 s2.
                bookingsConfirm req bid (Some ''deposit'') s = (Inr (Some b1), s1)
              \<and> bk_status b1 = ''deposit_paid''
              \<and> bookingsConfirm req bid (Some ''final'') s1 = (Inr (Some b2), s2)
              \<and> bk_status b2 = ''confirmed''"
    using confirm_deposit_then_final [OF assms, of req] by blast
next
  assume "rq_authenticated req \<and> isAdmin req"
  then show "bookingsConfirm req bid None s =
              (Inr (Some (b\<lparr>bk_status := ''confirmed''\<rparr>)),
               s\<lparr>bookings := (bookings s)(bid \<mapsto> b\<lparr>bk_status := ''confirmed''\<rparr>)\<rparr>)"
    using confirm_without_installment [OF assms(1), of req] by blast
qed

text \<open>
  The fresh split booking starts as \<open>pending_payment\<close>; confirming its deposit gives
  \<open>deposit_paid\<close>, confirming the final installment after that gives \<open>confirmed\<close>.
\<close>

theorem installment_write_sets_status_witness:
  "getBooking 1 fresh_split_store = Some fresh_split_booking
   \<and> bk_paymentStructure fresh_split_booking = ''split_50_50''
   \<and> bk_status fresh_split_booking = ''pending_payment''
   \<and> (\<exists>b1 s1 b2 s2.
          bookingsConfirm admin_request 1 (Some ''deposit'') fresh_split_store =
            (Inr (Some b1), s1)
        \<and> bk_status b1 = ''deposit_paid''
        \<and> bookingsConfirm admin_request 1 (Some ''final'') s1 = (Inr (Some b2), s2)
        \<and> bk_status b2 = ''confirmed'')
   \<and> fst (bookingsConfirm admin_request 1 None fresh_split_store) =
       Inr (Some (fresh_split_booking\<lparr>bk_status := ''confirmed''\<rparr>))"
proof -
  have row: "bk_paymentStructure fresh_split_booking = ''split_50_50''"
    "bk_status fresh_split_booking = ''pending_payment''"
    "bk_depositStatus fresh_split_booking = Some ''pending''"
    "bk_finalStatus fresh_split_booking = Some ''pending''"
    by (simp_all add: fresh_split_booking_def)
  note claim = installment_write_sets_status
    [OF fresh_split_store_booking row(1), of _ _ _ admin_request]
  from claim admin_request_isAdmin row(3,4)
  have steps: "\<exists>b1 s1 b2 s2.
          bookingsConfirm admin_request 1 (Some ''deposit'') fresh_split_store =
            (Inr (Some b1), s1)
        \<and> bk_status b1 = ''deposit_paid''
        \<and> bookingsConfirm admin_request 1 (Some ''final'') s1 = (Inr (Some b2), s2)
        \<and> bk_status b2 = ''confirmed''"
    by blast
  from claim admin_request_isAdmin
  have "fst (bookingsConfirm admin_request 1 None fresh_split_store) =
       Inr (Some (fresh_split_booking\<lparr>bk_status := ''confirmed''\<rparr>))"
    by simp
  with fresh_split_store_booking row(1,2) steps show ?thesis by blast
qed

subsection \<open>No status is terminal\<close>

text \<open>
  Claim C9, as stated, fails: the cancel handler does not look at the current status.
  After the administrator has confirmed booking 1 its status is \<open>confirmed\<close>; the buyer's
  cancel request then succeeds and the stored status is \<open>cancelled\<close>; and a confirm
  request on the cancelled booking makes it \<open>confirmed\<close> again.
\<close>

theorem confirmed_booking_can_be_cancelled:
  "map_option bk_status (getBooking 1 confirmed_store) = Some ''confirmed''
   \<and> map_option bk_status (projr (fst (bookingsCancel buyer_request 1 confirmed_store))) =
       Some ''cancelled''
   \<and> map_option bk_status
       (getBooking 1 (snd (bookingsCancel buyer_request 1 confirmed_store))) =
       Some ''cancelled''
   \<and> map_option bk_status
       (getBooking 1 (snd (bookingsConfirm admin_request 1 None
          (snd (bookingsCancel buyer_request 1 confirmed_store))))) =
       Some ''confirmed''"
  by code_simp

text \<open>
  Claim C9, amended. No booking status is terminal in the program: for an authenticated
  caller who is the buyer or an administrator, cancel sets the status to \<open>cancelled\<close>
  whatever it was (also from \<open>confirmed\<close> and from \<open>cancelled\<close>), and for an
  administrator a confirm request that names no installment sets it to \<open>confirmed\<close>
  whatever it was (also from \<open>cancelled\<close>). Both change nothing else in the row.
\<close>

theorem cancel_and_confirm_from_any_status:
  assumes "getBooking bid s = Some b" and "rq_authenticated req"
  shows "(bk_buyerUid b = rq_userId req \<or> isAdmin req \<longrightarrow>
            bookingsCancel req bid s =
              (Inr (Some (b\<lparr>bk_status := ''cancelled''\<rparr>)),
               s\<lparr>bookings := (bookings s)(bid \<mapsto> b\<lparr>bk_status := ''cancelled''\<rparr>)\<rparr>))
       \<and> (isAdmin req \<longrightarrow>
            bookingsConfirm req bid None s =
              (Inr (Some (b\<lparr>bk_status := ''confirmed''\<rparr>)),
               s\<lparr>bookings := (bookings s)(bid \<mapsto> b\<lparr>bk_status := ''confirmed''\<rparr>)\<rparr>))"
  using cancel_from_any_status [OF assms] confirm_without_installment [OF assms]
  by blast

theorem cancel_and_confirm_from_any_status_witness:
  "getBooking 1 confirmed_store = Some (fresh_split_booking\<lparr>bk_status := ''confirmed''\<rparr>)
   \<and> rq_authenticated buyer_request
   \<and> bk_buyerUid (fresh_split_booking\<lparr>bk_status := ''confirmed''\<rparr>) = rq_userId buyer_request
   \<and> fst (bookingsCancel buyer_request 1 confirmed_store) =
       Inr (Some (fresh_split_booking\<lparr>bk_status := ''cancelled''\<rparr>))
   \<and> fst (bookingsConfirm admin_request 1 None confirmed_store) =
       Inr (Some (fresh_split_booking\<lparr>bk_status := ''confirmed''\<rparr>))"
proof -
  have buyer: "rq_authenticated buyer_request"
    "bk_buyerUid (fresh_split_booking\<lparr>bk_status := ''confirmed''\<rparr>) = rq_userId buyer_request"
    by (simp_all add: buyer_request_def fresh_split_booking_def)
  from cancel_and_confirm_from_any_status [OF confirmed_store_booking buyer(1)] buyer(2)
  have cancelled: "fst (bookingsCancel buyer_request 1 confirmed_store) =
       Inr (Some (fresh_split_booking\<lparr>bk_status := ''cancelled''\<rparr>))"
    by simp
  from cancel_and_confirm_from_any_status [OF confirmed_store_booking, of admin_request]
    admin_request_isAdmin
  have "fst (bookingsConfirm admin_request 1 None confirmed_store) =
       Inr (Some (fresh_split_booking\<lparr>bk_status := ''confirmed''\<rparr>))"
    by simp
  with confirmed_store_booking buyer cancelled show ?thesis by blast
qed

section \<open>Escrow\<close>

text \<open>
  The payment provider is outside the program. Its answers are given by a record: whether
  a client can be obtained, and for each call either the answer or the fact that the call
  threw (\<open>None\<close>, \<open>False\<close>). Every handler catches what is thrown and answers 500.
\<close>

record stripe_session =
  ss_id :: string
  ss_url :: "string option"
  ss_payment_status :: string
  ss_payment_intent :: "string option"

record stripe =
  st_client :: bool
  st_create :: "int \<Rightarrow> stripe_session option"
  st_retrieve :: "string \<Rightarrow> stripe_session option"
  st_intent_status :: "string \<Rightarrow> string option"
  st_capture :: "string \<Rightarrow> bool"
  st_cancel :: "string \<Rightarrow> bool"

text \<open>
  The body of a successful response: the checkout address of \<open>reserve\<close>, or the pair of
  \<open>success\<close> and \<open>message\<close> of the other three handlers.
\<close>

datatype reply = Url "string option" | Outcome bool string

text \<open>
  \<open>POST /api/escrow/reserve\<close>. \<open>bookingId\<close> is the field of the request body; absent
  and 0 are falsy.
\<close>

definition escrowReserve ::
  "stripe \<Rightarrow> request \<Rightarrow> int option \<Rightarrow> db \<Rightarrow> (failure + reply) \<times> db" where
  "escrowReserve stripe req bookingId s =
     (if \<not> rq_authenticated req then (Inl Unauthorized, s)
      else case int_or_null bookingId of
        None \<Rightarrow> (Inl (BadRequest ''bookingId is required''), s)
      | Some bid \<Rightarrow>
          (case getBooking bid s of
             None \<Rightarrow> (Inl (NotFound ''Booking not found''), s)
           | Some booking \<Rightarrow>
               if bk_buyerUid booking \<noteq> rq_userId req
               then (Inl (Forbidden ''Not your booking''), s)
               else if bk_status booking \<noteq> ''pending_payment''
               then (Inl (BadRequest ''Booking is not awaiting payment''), s)
               else if bk_escrowStatus booking = ''authorized''
               then (Inl (BadRequest ''Payment already reserved in escrow''), s)
               else
                 (case (if st_client stripe then st_create stripe (bk_totalAmount booking)
                        else None) of
                    None \<Rightarrow> (Inl (ServerError ''Failed to create escrow reservation''), s)
                  | Some session \<Rightarrow>
                      (let (updated, s1) = updateBookingStripeInfo bid
                             \<lparr>si_stripeSessionId = Some (ss_id session),
                              si_stripePaymentIntentId = None,
                              si_paymentMethod = Some ''escrow'',
                              si_status = None\<rparr> s
                       in (Inr (Url (ss_url session)), s1)))))"

text \<open>\<open>POST /api/escrow/confirm-reservation\<close>.\<close>

definition escrowConfirmReservation ::
  "stripe \<Rightarrow> request \<Rightarrow> int option \<Rightarrow> string option \<Rightarrow> db \<Rightarrow> (failure + reply) \<times> db" where
  "escrowConfirmReservation stripe req bookingId sessionId s =
     (if \<not> rq_authenticated req then (Inl Unauthorized, s)
      else case int_or_null bookingId of
        None \<Rightarrow> (Inl (BadRequest ''bookingId is required''), s)
      | Some bid \<Rightarrow>
          (case getBooking bid s of
             None \<Rightarrow> (Inl (NotFound ''Booking not found''), s)
           | Some booking \<Rightarrow>
               if bk_buyerUid booking \<noteq> rq_userId req
               then (Inl (Forbidden ''Not your booking''), s)
               else if bk_escrowStatus booking = ''authorized''
               then (Inr (Outcome True ''Escrow already confirmed''), s)
               else if \<not> st_client stripe
               then (Inl (ServerError ''Failed to confirm escrow reservation''), s)
               else
                 (case str_or_null (if truthy sessionId then sessionId
                                    else bk_stripeSessionId booking) of
                    None \<Rightarrow> (Inl (BadRequest ''No checkout session found''), s)
                  | Some checkoutSessionId \<Rightarrow>
                      (case st_retrieve stripe checkoutSessionId of
                         None \<Rightarrow> (Inl (ServerError ''Failed to confirm escrow reservation''), s)
                       | Some session \<Rightarrow>
                           (case (if ss_payment_status session = ''paid''
                                  then str_or_null (ss_payment_intent session) else None) of
                              None \<Rightarrow>
                                (Inr (Outcome False
                                   (''Checkout session status: '' @ ss_payment_status session)),
                                 s)
                            | Some paymentIntentId \<Rightarrow>
                                (case st_intent_status stripe paymentIntentId of
                                   None \<Rightarrow>
                                     (Inl (ServerError
                                        ''Failed to confirm escrow reservation''), s)
                                 | Some status \<Rightarrow>
                                     if status = ''requires_capture'' then
                                       (let (u1, s1) = updateBookingStripeInfo bid
                                              \<lparr>si_stripeSessionId = None,
                                               si_stripePaymentIntentId = Some paymentIntentId,
                                               si_paymentMethod = None,
                                               si_status = None\<rparr> s;
                                            (u2, s2) = updateBookingEscrow bid ''authorized'' s1;
                                            (u3, s3) =
                                              updateBookingStatus bid ''payment_submitted'' s2
                                        in (Inr (Outcome True ''Payment reserved in escrow''),
                                            s3))
                                     else
                                       (Inr (Outcome False
                                          (''Payment intent status: '' @ status)), s)))))))"

text \<open>\<open>POST /api/escrow/release\<close>.\<close>

definition escrowRelease ::
  "stripe \<Rightarrow> request \<Rightarrow> int option \<Rightarrow> db \<Rightarrow> (failure + reply) \<times> db" where
  "escrowRelease stripe req bookingId s =
     (if \<not> rq_authenticated req then (Inl Unauthorized, s)
      else case int_or_null bookingId of
        None \<Rightarrow> (Inl (BadRequest ''bookingId is required''), s)
      | Some bid \<Rightarrow>
          (case getBooking bid s of
             None \<Rightarrow> (Inl (NotFound ''Booking not found''), s)
           | Some booking \<Rightarrow>
               if bk_buyerUid booking \<noteq> rq_userId req \<and> \<not> isAdmin req
               then (Inl (Forbidden ''Only the host or admin can release escrow funds''), s)
               else if bk_escrowStatus booking \<noteq> ''authorized''
               then (Inl (BadRequest ''No authorized escrow to release''), s)
               else
                 (case str_or_null (bk_stripePaymentIntentId booking) of
                    None \<Rightarrow> (Inl (BadRequest ''No payment intent found''), s)
                  | Some paymentIntentId \<Rightarrow>
                      if st_client stripe \<and> st_capture stripe paymentIntentId then
                        (let (u1, s1) = updateBookingEscrow bid ''captured'' s;
                             (u2, s2) = updateBookingStatus bid ''confirmed'' s1
                         in (Inr (Outcome True ''Escrow funds released to talent''), s2))
                      else (Inl (ServerError ''Failed to release escrow funds''), s))))"

text \<open>\<open>POST /api/escrow/cancel\<close>.\<close>

definition escrowCancel ::
  "stripe \<Rightarrow> request \<Rightarrow> int option \<Rightarrow> db \<Rightarrow> (failure + reply) \<times> db" where
  "escrowCancel stripe req bookingId s =
     (if \<not> rq_authenticated req then (Inl Unauthorized, s)
      else case int_or_null bookingId of
        None \<Rightarrow> (Inl (BadRequest ''bookingId is required''), s)
      | Some bid \<Rightarrow>
          (case getBooking bid s of
             None \<Rightarrow> (Inl (NotFound ''Booking not found''), s)
           | Some booking \<Rightarrow>
               if bk_buyerUid booking \<noteq> rq_userId req \<and> \<not> isAdmin req
               then (Inl (Forbidden ''Only the host or admin can cancel escrow''), s)
               else if bk_escrowStatus booking \<noteq> ''authorized''
               then (Inl (BadRequest ''No authorized escrow to cancel''), s)
               else
                 (case str_or_null (bk_stripePaymentIntentId booking) of
                    None \<Rightarrow> (Inl (BadRequest ''No payment intent found''), s)
                  | Some paymentIntentId \<Rightarrow>
                      if st_client stripe \<and> st_cancel stripe paymentIntentId then
                        (let (u1, s1) = updateBookingEscrow bid ''cancelled'' s;
                             (u2, s2) = updateBookingStatus bid ''cancelled'' s1
                         in (Inr (Outcome True ''Escrow cancelled and funds returned''), s2))
                      else (Inl (ServerError ''Failed to cancel escrow''), s))))"

text \<open>
  Example data: a provider that answers every call (a paid session whose intent awaits
  capture), and a caller who is neither the buyer nor an administrator.
\<close>

definition stripe_up :: stripe where
  "stripe_up =
     \<lparr>st_client = True,
      st_create = (\<lambda>amount. Some \<lparr>ss_id = ''cs_1'', ss_url = Some ''https://checkout'',
                                  ss_payment_status = ''unpaid'', ss_payment_intent = None\<rparr>),
      st_retrieve = (\<lambda>sid. Some \<lparr>ss_id = sid, ss_url = None, ss_payment_status = ''paid'',
                                 ss_payment_intent = Some ''pi_1''\<rparr>),
      st_intent_status = (\<lambda>pid. Some ''requires_capture''),
      st_capture = (\<lambda>pid. True),
      st_cancel = (\<lambda>pid. True)\<rparr>"

definition stranger_request :: request where
  "stranger_request =
     \<lparr>rq_authenticated = True, rq_userId = ''stranger'', rq_email = Some ''x@example.org''\<rparr>"

lemma escrowReserve_rejects:
  assumes "getBooking bid s = Some b"
    and "bk_status b \<noteq> ''pending_payment'' \<or> bk_escrowStatus b = ''authorized''"
  shows "(\<exists>e. escrowReserve stripe req (Some bid) s = (Inl e, s))
       \<and> (rq_authenticated req \<and> bid \<noteq> 0 \<and> rq_userId req = bk_buyerUid b \<longrightarrow>
            escrowReserve stripe req (Some bid) s =
              (Inl (BadRequest (if bk_status b \<noteq> ''pending_payment''
                               then ''Booking is not awaiting payment''
                               else ''Payment already reserved in escrow'')), s))"
  using assms by (auto simp: escrowReserve_def int_or_null_def)

lemma escrowRelease_rejects:
  assumes "getBooking bid s = Some b" and "bk_escrowStatus b \<noteq> ''authorized''"
  shows "(\<exists>e. escrowRelease stripe req (Some bid) s = (Inl e, s))
       \<and> (rq_authenticated req \<and> bid \<noteq> 0 \<and> (rq_userId req = bk_buyerUid b \<or> isAdmin req) \<longrightarrow>
            escrowRelease stripe req (Some bid) s =
              (Inl (BadRequest ''No authorized escrow to release''), s))"
  using assms by (auto simp: escrowRelease_def int_or_null_def)

lemma escrowCancel_rejects:
  assumes "getBooking bid s = Some b" and "bk_escrowStatus b \<noteq> ''authorized''"
  shows "(\<exists>e. escrowCancel stripe req (Some bid) s = (Inl e, s))
       \<and> (rq_authenticated req \<and> bid \<noteq> 0 \<and> (rq_userId req = bk_buyerUid b \<or> isAdmin req) \<longrightarrow>
            escrowCancel stripe req (Some bid) s =
              (Inl (BadRequest ''No authorized escrow to cancel''), s))"
  using assms by (auto simp: escrowCancel_def int_or_null_def)

lemma escrow_rejects_other_callers:
  assumes "getBooking bid s = Some b"
    and "rq_userId req \<noteq> bk_buyerUid b" and "\<not> isAdmin req"
  shows "(\<exists>e. escrowReserve stripe req (Some bid) s = (Inl e, s))
       \<and> (\<exists>e. escrowConfirmReservation stripe req (Some bid) sid s = (Inl e, s))
       \<and> (\<exists>e. escrowRelease stripe req (Some bid) s = (Inl e, s))
       \<and> (\<exists>e. escrowCancel stripe req (Some bid) s = (Inl e, s))
       \<and> (rq_authenticated req \<and> bid \<noteq> 0 \<longrightarrow>
            escrowReserve stripe req (Some bid) s = (Inl (Forbidden ''Not your booking''), s)
          \<and> escrowConfirmReservation stripe req (Some bid) sid s =
              (Inl (Forbidden ''Not your booking''), s)
          \<and> escrowRelease stripe req (Some bid) s =
              (Inl (Forbidden ''Only the host or admin can release escrow funds''), s)
          \<and> escrowCancel stripe req (Some bid) s =
              (Inl (Forbidden ''Only the host or admin can cancel escrow''), s))"
  using assms
  by (auto simp: escrowReserve_def escrowConfirmReservation_def escrowRelease_def
      escrowCancel_def int_or_null_def)

text \<open>
  Reserving and confirming a reservation are for the buyer alone: an administrator who is
  not the buyer is refused there too.
\<close>

lemma escrowReserve_buyer_only:
  assumes "getBooking bid s = Some b" and "rq_userId req \<noteq> bk_buyerUid b"
    and "rq_authenticated req" and "bid \<noteq> 0"
  shows "escrowReserve stripe req (Some bid) s = (Inl (Forbidden ''Not your booking''), s)
       \<and> escrowConfirmReservation stripe req (Some bid) sid s =
           (Inl (Forbidden ''Not your booking''), s)"
  using assms
  by (auto simp: escrowReserve_def escrowConfirmReservation_def int_or_null_def)
text \<open>
  Claim C7. For a booking that exists: \<open>reserve\<close> on a booking whose status is not
  \<open>pending_payment\<close> or whose escrow status is \<open>authorized\<close>, and \<open>release\<close> and
  \<open>cancel\<close> on a booking whose escrow status is not \<open>authorized\<close>, answer with an error
  and leave the store as it was, whoever calls; for a caller who passes the checks made
  before (authenticated, booking id given, buyer, or for release and cancel buyer or
  administrator) the error is the 400 that names the violated precondition. A caller who
  is neither the buyer nor an administrator gets an error from all four escrow operations
  and the store stays as it was; when authenticated, the error is 403.
\<close>

theorem escrow_preconditions_enforced:
  assumes "getBooking bid s = Some b"
  shows "(bk_status b \<noteq> ''pending_payment'' \<or> bk_escrowStatus b = ''authorized'' \<longrightarrow>
            (\<exists>e. escrowReserve stripe req (Some bid) s = (Inl e, s))
          \<and> (rq_authenticated req \<and> bid \<noteq> 0 \<and> rq_userId req = bk_buyerUid b \<longrightarrow>
               escrowReserve stripe req (Some bid) s =
                 (Inl (BadRequest (if bk_status b \<noteq> ''pending_payment''
                                  then ''Booking is not awaiting payment''
                                  else ''Payment already reserved in escrow'')), s)))
       \<and> (bk_escrowStatus b \<noteq> ''authorized'' \<longrightarrow>
            (\<exists>e. escrowRelease stripe req (Some bid) s = (Inl e, s))
          \<and> (\<exists>e. escrowCancel stripe req (Some bid) s = (Inl e, s))
          \<and> (rq_authenticated req \<and> bid \<noteq> 0
                \<and> (rq_userId req = bk_buyerUid b \<or> isAdmin req) \<longrightarrow>
               escrowRelease stripe req (Some bid) s =
                 (Inl (BadRequest ''No authorized escrow to release''), s)
             \<and> escrowCancel stripe req (Some bid) s =
                 (Inl (BadRequest ''No authorized escrow to cancel''), s)))
       \<and> (rq_userId req \<noteq> bk_buyerUid b \<and> \<not> isAdmin req \<longrightarrow>
            (\<exists>e. escrowReserve stripe req (Some bid) s = (Inl e, s))
          \<and> (\<exists>e. escrowConfirmReservation stripe req (Some bid) sid s = (Inl e, s))
          \<and> (\<exists>e. escrowRelease stripe req (Some bid) s = (Inl e, s))
          \<and> (\<exists>e. escrowCancel stripe req (Some bid) s = (Inl e, s))
          \<and> (rq_authenticated req \<and> bid \<noteq> 0 \<longrightarrow>
               escrowReserve stripe req (Some bid) s =
                 (Inl (Forbidden ''Not your booking''), s)
             \<and> escrowConfirmReservation stripe req (Some bid) sid s =
                 (Inl (Forbidden ''Not your booking''), s)
             \<and> escrowRelease stripe req (Some bid) s =
                 (Inl (Forbidden ''Only the host or admin can release escrow funds''), s)
             \<and> escrowCancel stripe req (Some bid) s =
                 (Inl (Forbidden ''Only the host or admin can cancel escrow''), s)))"
  using escrowReserve_rejects [OF assms, of stripe req]
    escrowRelease_rejects [OF assms, of stripe req]
    escrowCancel_rejects [OF assms, of stripe req]
    escrow_rejects_other_callers [OF assms, of req stripe sid]
  by blast

text \<open>
  On the confirmed booking, whose escrow status is \<open>none\<close>, the buyer's reserve, release
  and cancel requests get the three precondition errors, and a stranger's release request
  gets 403; the store is the same after each.
\<close>

theorem escrow_preconditions_enforced_witness:
  "getBooking 1 confirmed_store = Some (fresh_split_booking\<lparr>bk_status := ''confirmed''\<rparr>)
   \<and> escrowReserve stripe_up buyer_request (Some 1) confirmed_store =
       (Inl (BadRequest ''Booking is not awaiting payment''), confirmed_store)
   \<and> escrowRelease stripe_up buyer_request (Some 1) confirmed_store =
       (Inl (BadRequest ''No authorized escrow to release''), confirmed_store)
   \<and> escrowCancel stripe_up buyer_request (Some 1) confirmed_store =
       (Inl (BadRequest ''No authorized escrow to cancel''), confirmed_store)
   \<and> escrowRelease stripe_up stranger_request (Some 1) confirmed_store =
       (Inl (Forbidden ''Only the host or admin can release escrow funds''), confirmed_store)
   \<and> escrowReserve stripe_up stranger_request (Some 1) confirmed_store =
       (Inl (Forbidden ''Not your booking''), confirmed_store)"
proof -
  let ?b = "fresh_split_booking\<lparr>bk_status := ''confirmed''\<rparr>"
  have row: "bk_status ?b \<noteq> ''pending_payment''" "bk_escrowStatus ?b \<noteq> ''authorized''"
    by (simp_all add: fresh_split_booking_def)
  have buyer: "rq_authenticated buyer_request" "rq_userId buyer_request = bk_buyerUid ?b"
    by (simp_all add: buyer_request_def fresh_split_booking_def)
  have stranger: "rq_authenticated stranger_request"
    "rq_userId stranger_request \<noteq> bk_buyerUid ?b" "\<not> isAdmin stranger_request"
    by (simp_all add: stranger_request_def fresh_split_booking_def isAdmin_def ADMIN_EMAILS_def)
  note claim = escrow_preconditions_enforced [OF confirmed_store_booking]
  from claim [of stripe_up buyer_request] row buyer
  have "escrowReserve stripe_up buyer_request (Some 1) confirmed_store =
       (Inl (BadRequest ''Booking is not awaiting payment''), confirmed_store)"
    "escrowRelease stripe_up buyer_request (Some 1) confirmed_store =
       (Inl (BadRequest ''No authorized escrow to release''), confirmed_store)"
    "escrowCancel stripe_up buyer_request (Some 1) confirmed_store =
       (Inl (BadRequest ''No authorized escrow to cancel''), confirmed_store)"
    by simp_all
  moreover from claim [of stripe_up stranger_request] stranger
  have "escrowRelease stripe_up stranger_request (Some 1) confirmed_store =
       (Inl (Forbidden ''Only the host or admin can release escrow funds''), confirmed_store)"
    "escrowReserve stripe_up stranger_request (Some 1) confirmed_store =
       (Inl (Forbidden ''Not your booking''), confirmed_store)"
    by simp_all
  ultimately show ?thesis using confirmed_store_booking by blast
qed

section \<open>Creating a post\<close>

text \<open>
  \<open>shared/schema.ts\<close>: the categories an event may have, and the categories that need
  a professional verification (the keys of \<open>LICENSED_CATEGORIES\<close>).
\<close>

definition EVENT_CATEGORIES :: "string list" where
  "EVENT_CATEGORIES =
     [''Club Party'', ''Festival'', ''Concert'', ''Job Fair'', ''Open Mic'', ''Art Show'',
      ''Pop-Up Shop'', ''Community Meetup'', ''Sports Event'', ''Block Party'',
      ''Networking Event'', ''Showcase'', ''Other Event'']"

definition ALL_EVENT_CATEGORIES :: "string list" where
  "ALL_EVENT_CATEGORIES = EVENT_CATEGORIES @ [''Adult Club Event'']"

definition LICENSED_CATEGORIES :: "string list" where
  "LICENSED_CATEGORIES =
     [''Warehouse & Logistics'', ''Skilled Trades'', ''Studio & Engineering'',
      ''Fitness & Training'', ''Chefs & Culinary'']"

text \<open>
  The body of \<open>POST /api/posts\<close> after the input schema has accepted it, with the
  fields the handler reads; \<open>None\<close> is a field that the body leaves out.
\<close>

record PostInput =
  pi_postType :: "string option"
  pi_title :: string
  pi_category :: string
  pi_tier :: string
  pi_pay :: int
  pi_promoterName :: string
  pi_boostLevel :: "string option"
  pi_nsfw :: "bool option"

definition getVerificationsByUser :: "string \<Rightarrow> db \<Rightarrow> VerificationRequest list" where
  "getVerificationsByUser uid s =
     rev (filter (\<lambda>v. vr_userId v = uid) (verificationRequests s))"

definition getProfessionalVerificationByUserAndCategory ::
  "string \<Rightarrow> string \<Rightarrow> db \<Rightarrow> ProfessionalVerification option" where
  "getProfessionalVerificationByUserAndCategory uid category s =
     find (\<lambda>r. pv_userId r = uid \<and> pv_category r = category \<and> pv_status r = ''approved'')
       (rev (professionalVerifications s))"

text \<open>\<open>createPost\<close>: the insert fills the serial key and the defaults.\<close>

definition createPost :: "PostInput \<Rightarrow> string \<Rightarrow> nat option \<Rightarrow> db \<Rightarrow> Post \<times> db" where
  "createPost input uid boostExpiresAt s =
     (let newPost =
            \<lparr>po_id = postSeq s,
             po_userId = uid,
             po_postType = (case pi_postType input of None \<Rightarrow> ''gig'' | Some t \<Rightarrow> t),
             po_title = pi_title input,
             po_category = pi_category input,
             po_tier = pi_tier input,
             po_pay = pi_pay input,
             po_promoterName = pi_promoterName input,
             po_boostLevel = (case pi_boostLevel input of None \<Rightarrow> ''None'' | Some l \<Rightarrow> l),
             po_boostExpiresAt = boostExpiresAt,
             po_nsfw = (case pi_nsfw input of None \<Rightarrow> False | Some n \<Rightarrow> n)\<rparr>
      in (newPost, s\<lparr>posts := posts s @ [newPost], postSeq := postSeq s + 1\<rparr>))"

text \<open>
  The handler, block by block. First block: an event must have an event category, and
  the category \<open>Adult Club Event\<close> sets the \<open>nsfw\<close> flag of the input.
\<close>

definition eventCategoryBlock :: "PostInput \<Rightarrow> failure + PostInput" where
  "eventCategoryBlock input =
     (if pi_postType input = Some ''event'' then
        (if pi_category input \<notin> set ALL_EVENT_CATEGORIES then
           Inl (BadRequest (''Invalid event category: '' @ pi_category input
                  @ ''. Please select a valid event category.''))
         else if pi_category input = ''Adult Club Event'' then Inr (input\<lparr>pi_nsfw := Some True\<rparr>)
         else Inr input)
      else Inr input)"

text \<open>
  Second block: flagged content and the two adult categories need an approved
  verification with confirmed age; then the flag is set.
\<close>

definition ageGateBlock :: "string \<Rightarrow> PostInput \<Rightarrow> db \<Rightarrow> failure + PostInput" where
  "ageGateBlock uid input s =
     (if pi_nsfw input = Some True \<or> pi_category input = ''Adult/NSFW''
         \<or> pi_category input = ''Adult Club Event''
      then
        (let verifications = getVerificationsByUser uid s;
             isAgeVerified =
               list_ex (\<lambda>v. vr_status v = ''approved'' \<and> vr_ageConfirmed v) verifications
         in if \<not> isAgeVerified then
              Inl (BadRequest (''Age-verified ID required to post Adult/NSFW content. ''
                     @ ''Complete ID verification first.''))
            else Inr (input\<lparr>pi_nsfw := Some True\<rparr>))
      else Inr input)"

text \<open>Third and fourth block: licensed categories and boosts.\<close>

definition licenceBlock :: "string \<Rightarrow> PostInput \<Rightarrow> db \<Rightarrow> failure option" where
  "licenceBlock uid input s =
     (if pi_postType input \<noteq> Some ''event'' \<and> pi_category input \<in> set LICENSED_CATEGORIES
      then
        (case getProfessionalVerificationByUserAndCategory uid (pi_category input) s of
           None \<Rightarrow>
             Some (BadRequest (''Professional verification required to post in ''
                     @ pi_category input
                     @ ''. Submit your license or certification first.''))
         | Some _ \<Rightarrow> None)
      else None)"

definition boostBlock :: "string \<Rightarrow> PostInput \<Rightarrow> failure option" where
  "boostBlock plan input =
     (if truthy (pi_boostLevel input) \<and> pi_boostLevel input \<noteq> Some ''None''
         \<and> \<not> canUseBoosts plan
      then Some (BadRequest ''Boosts require a Pro or Elite plan.'')
      else None)"

text \<open>
  Fifth block: the cost in credits is charged unless the plan has unlimited posts. The
  result of \<open>deductCredits\<close> is not looked at.
\<close>

definition chargeBlock :: "string \<Rightarrow> string \<Rightarrow> PostInput \<Rightarrow> db \<Rightarrow> failure option \<times> db" where
  "chargeBlock uid plan input s =
     (let isEvent = (pi_postType input = Some ''event'');
          isNsfwEvent = (isEvent \<and> (pi_nsfw input = Some True
                                      \<or> pi_category input = ''Adult Club Event''));
          postCost = (if isEvent then getEventCreditCost isNsfwEvent
                      else getPostCreditCost (pi_tier input));
          boostCost = getBoostCreditCost (str_or (pi_boostLevel input) ''None'');
          totalCost = postCost + boostCost
      in if \<not> hasUnlimitedPosts plan then
           (let (credit, s1) = ensureCredits uid s
            in if \<not> canAfford (cr_balance credit) totalCost plan then
                 (Some (InsufficientCredits totalCost (cr_balance credit)), s1)
               else
                 (let actionLabel = (if isEvent then ''create_event'' else ''create_post'');
                      descr =
                        (if isEvent then
                           ''Posted event: '' @ pi_title input @ '' ('' @ pi_category input
                           @ '', boost: '' @ str_or (pi_boostLevel input) ''None'' @ '')''
                         else
                           ''Created post: '' @ pi_title input @ '' (tier: '' @ pi_tier input
                           @ '', boost: '' @ str_or (pi_boostLevel input) ''None'' @ '')'')
                  in (None, snd (deductCredits uid totalCost actionLabel descr s1))))
         else (None, s))"

text \<open>
  \<open>POST /api/posts\<close>. The post is stored with the input as the blocks have left it. The
  notifications to followers that come after the insert do not touch the post and are
  left out.
\<close>

definition postsCreate ::
  "request \<Rightarrow> PostInput option \<Rightarrow> nat \<Rightarrow> db \<Rightarrow> (failure + Post) \<times> db" where
  "postsCreate req body now s =
     (if \<not> rq_authenticated req then (Inl Unauthorized, s)
      else case body of
        None \<Rightarrow> (Inl ValidationFailed, s)
      | Some input0 \<Rightarrow>
          (let userId = rq_userId req;
               plan = getUserPlan userId s
           in case eventCategoryBlock input0 of
                Inl e \<Rightarrow> (Inl e, s)
              | Inr input1 \<Rightarrow>
                  (case ageGateBlock userId input1 s of
                     Inl e \<Rightarrow> (Inl e, s)
                   | Inr input \<Rightarrow>
                       (case licenceBlock userId input s of
                          Some e \<Rightarrow> (Inl e, s)
                        | None \<Rightarrow>
                            (case boostBlock plan input of
                               Some e \<Rightarrow> (Inl e, s)
                             | None \<Rightarrow>
                                 (case chargeBlock userId plan input s of
                                    (Some e, s1) \<Rightarrow> (Inl e, s1)
                                  | (None, s1) \<Rightarrow>
                                      (let boostExpiry =
                                             getBoostExpiry
                                               (str_or (pi_boostLevel input) ''None'') now;
                                           (post, s2) = createPost input userId boostExpiry s1
                                       in (Inr post, s2))))))))"

lemma eventCategoryBlock_category:
  "eventCategoryBlock input0 = Inr input1 \<Longrightarrow> pi_category input1 = pi_category input0"
  by (auto simp: eventCategoryBlock_def split: if_splits)

lemma ageGateBlock_adult_club:
  "ageGateBlock uid input1 s = Inr input \<Longrightarrow> pi_category input1 = ''Adult Club Event'' \<Longrightarrow>
   pi_nsfw input = Some True \<and> pi_category input = ''Adult Club Event''"
  by (auto simp: ageGateBlock_def Let_def split: if_splits)

lemma postsCreate_stages:
  assumes "postsCreate req (Some input0) now s = (Inr post, s')"
  shows "\<exists>input1 input s1 expiry.
           eventCategoryBlock input0 = Inr input1
         \<and> ageGateBlock (rq_userId req) input1 s = Inr input
         \<and> createPost input (rq_userId req) expiry s1 = (post, s')"
  using assms
  by (auto simp: postsCreate_def Let_def
      split: if_splits sum.splits option.splits prod.splits)

lemma createPost_stores:
  "createPost input uid expiry s1 = (post, s') \<Longrightarrow>
   po_nsfw post = (pi_nsfw input = Some True) \<and> po_category post = pi_category input
   \<and> posts s' = posts s1 @ [post]"
  by (auto simp: createPost_def Let_def split: option.splits)

text \<open>
  Example data: a user with an approved, age-confirmed verification, and an event in the
  category \<open>Adult Club Event\<close> whose body says \<open>nsfw = false\<close>.
\<close>

definition verified_store :: db where
  "verified_store =
     emptyDb\<lparr>verificationRequests :=
       [\<lparr>vr_userId = ''host'', vr_status = ''approved'', vr_ageConfirmed = True\<rparr>]\<rparr>"

definition host_request :: request where
  "host_request = \<lparr>rq_authenticated = True, rq_userId = ''host'', rq_email = None\<rparr>"

definition adult_club_input :: PostInput where
  "adult_club_input =
     \<lparr>pi_postType = Some ''event'', pi_title = ''Late night'',
      pi_category = ''Adult Club Event'', pi_tier = ''Slots'', pi_pay = 0,
      pi_promoterName = ''Host'', pi_boostLevel = None, pi_nsfw = Some False\<rparr>"

definition adult_club_post :: Post where
  "adult_club_post =
     \<lparr>po_id = 1, po_userId = ''host'', po_postType = ''event'', po_title = ''Late night'',
      po_category = ''Adult Club Event'', po_tier = ''Slots'', po_pay = 0,
      po_promoterName = ''Host'', po_boostLevel = ''None'', po_boostExpiresAt = None,
      po_nsfw = True\<rparr>"

lemma adult_club_created:
  "fst (postsCreate host_request (Some adult_club_input) 0 verified_store) = Inr adult_club_post"
  by code_simp

text \<open>
  Claim C10. Every post that \<open>POST /api/posts\<close> creates from an input whose category is
  \<open>Adult Club Event\<close> has \<open>nsfw = true\<close>, whatever flag the input carried; the flag is
  set on the input before the insert, and the row returned is the row stored.
\<close>

theorem adult_club_event_post_is_nsfw:
  assumes "postsCreate req (Some input0) now s = (Inr post, s')"
      and "pi_category input0 = ''Adult Club Event''"
  shows "po_nsfw post \<and> po_category post = ''Adult Club Event'' \<and> last (posts s') = post"
proof -
  from postsCreate_stages [OF assms(1)]
  obtain input1 input s1 expiry where
    first: "eventCategoryBlock input0 = Inr input1" and
    age_ok: "ageGateBlock (rq_userId req) input1 s = Inr input" and
    stored: "createPost input (rq_userId req) expiry s1 = (post, s')"
    by blast
  from eventCategoryBlock_category [OF first] assms(2)
  have "pi_category input1 = ''Adult Club Event''" by simp
  from ageGateBlock_adult_club [OF age_ok this]
  have "pi_nsfw input = Some True" and "pi_category input = ''Adult Club Event''" by simp_all
  with createPost_stores [OF stored] show ?thesis by simp
qed

text \<open>The verified host posts the event with \<open>nsfw = false\<close>; the post stored has \<open>nsfw = true\<close>.\<close>

theorem adult_club_event_post_is_nsfw_witness:
  "pi_category adult_club_input = ''Adult Club Event''
   \<and> pi_nsfw adult_club_input = Some False
   \<and> fst (postsCreate host_request (Some adult_club_input) 0 verified_store) =
       Inr adult_club_post
   \<and> po_nsfw adult_club_post
   \<and> last (posts (snd (postsCreate host_request (Some adult_club_input) 0 verified_store))) =
       adult_club_post"
proof -
  have input: "pi_category adult_club_input = ''Adult Club Event''"
    "pi_nsfw adult_club_input = Some False"
    by (simp_all add: adult_club_input_def)
  from adult_club_created
  have run: "postsCreate host_request (Some adult_club_input) 0 verified_store =
      (Inr adult_club_post,
       snd (postsCreate host_request (Some adult_club_input) 0 verified_store))"
    by (metis prod.collapse)
  from adult_club_event_post_is_nsfw [OF run input(1)] input adult_club_created
  show ?thesis by simp
qed

end
